theory Spec2Isabelle
  imports Complex_Main "HOL-Library.Multiset" "HOL-Library.Char_ord" "HOL-Library.List_Lexorder"
    "HOL-Library.Product_Lexorder"
begin

section \<open>Column selections\<close>

text \<open>
  The script classifies the columns of the uploaded table once (\<open>numeric_columns\<close>,
  \<open>categorical_columns\<close>) and reads three optional roles from select boxes
  (\<open>date_column\<close>, \<open>category_column\<close>, \<open>sales_column\<close>). A select box returns
  \<open>None\<close> or a column name; the script tests a role with Python truthiness
  (\<open>if sales_column:\<close>), which is false for \<open>None\<close> and for the empty string.
\<close>

record selection =
  numeric_columns :: "string list"
  categorical_columns :: "string list"
  date_column :: "string option"
  category_column :: "string option"
  sales_column :: "string option"

definition truthy :: "string option \<Rightarrow> bool" where
  "truthy s = (case s of None \<Rightarrow> False | Some c \<Rightarrow> c \<noteq> [])"

definition role_name :: "string option \<Rightarrow> string" where
  \<comment> \<open>how an f-string prints a role: the name, or \<open>None\<close>\<close>
  "role_name s = (case s of None \<Rightarrow> ''None'' | Some c \<Rightarrow> c)"

section \<open>Dynamic report: the chart loop of tab 3\<close>

text \<open>
  A chart is the call to the plotting library with the arguments the script passes:
  the columns, the optional colour column and the title.
\<close>

datatype chart =
    Scatter string string "string option" string
  | Pie string string
  | BarMean string string "string option" string
  | Histogram string string
  | Box string string string string
  | Line string string string

datatype widget = PlotlyChart chart | WarningBox string | InfoBox string

definition no_chart_notice :: string where
  "no_chart_notice = ''No suitable data found to generate a dynamic chart.''"

definition could_not_create :: "string \<Rightarrow> string \<Rightarrow> string \<Rightarrow> string" where
  "could_not_create chart_type cols e = ''Could not create '' @ chart_type @ '' ('' @ cols @ ''): '' @ e"

text \<open>
  The \<open>if\<close>/\<open>elif\<close> chain of one iteration: the first branch whose condition holds fixes
  \<open>chart_type\<close>, the columns printed in the warning and the chart to draw; when no
  branch is taken \<open>chart_type\<close> stays \<open>None\<close>.
\<close>

definition slot_rule :: "selection \<Rightarrow> nat \<Rightarrow> (string \<times> string \<times> chart) option" where
  "slot_rule sel i =
    (let num = numeric_columns sel; cat = categorical_columns sel;
         sales = sales_column sel; date = date_column sel
     in
     if length num \<ge> 2 \<and> i mod 7 = 0 then
       (let x_col = num ! (i mod length num); y_col = num ! ((i + 1) mod length num)
        in Some (''Scatter Plot'', x_col @ '', '' @ y_col,
                 Scatter x_col y_col None (y_col @ '' vs '' @ x_col)))
     else if cat \<noteq> [] \<and> i mod 7 = 1 then
       (let cat_col = cat ! (i mod length cat)
        in Some (''Pie Chart'', cat_col, Pie cat_col (''Distribution of '' @ cat_col)))
     else if cat \<noteq> [] \<and> truthy sales \<and> i mod 7 = 2 then
       (let cat_col = cat ! (i mod length cat)
        in Some (''Bar Chart (Mean Sales)'', cat_col,
                 BarMean cat_col (role_name sales) (Some cat_col) (''Avg Sales by '' @ cat_col)))
     else if num \<noteq> [] \<and> i mod 7 = 3 then
       (let num_col = num ! (i mod length num)
        in Some (''Histogram'', num_col, Histogram num_col (''Distribution of '' @ num_col)))
     else if cat \<noteq> [] \<and> num \<noteq> [] \<and> i mod 7 = 4 then
       (let cat_col = cat ! (i mod length cat); num_col = num ! (i mod length num)
        in Some (''Box Plot'', cat_col @ '', '' @ num_col,
                 Box cat_col num_col cat_col (num_col @ '' distribution by '' @ cat_col)))
     else if truthy date \<and> truthy sales \<and> i mod 7 = 5 then
       Some (''Time Series (Sales)'', role_name date @ '', '' @ role_name sales,
             Line (role_name date) (role_name sales) ''Sales Over Time'')
     else if length num \<ge> 2 \<and> cat \<noteq> [] \<and> i mod 7 = 6 then
       (let x_col = num ! (i mod length num); y_col = num ! ((i + 1) mod length num);
            color_col = cat ! (i mod length cat)
        in Some (''Scatter Plot (with Category)'', x_col @ '', '' @ y_col @ '', '' @ color_col,
                 Scatter x_col y_col (Some color_col)
                   (y_col @ '' vs '' @ x_col @ '' by '' @ color_col)))
     else None)"

text \<open>
  Drawing a chart is the work of the plotting and display libraries: \<open>render\<close> says, for
  the iteration \<open>i\<close> and its chart on the current filtered view, whether the \<open>try\<close>
  block completes (\<open>None\<close>) or raises (\<open>Some e\<close>, with \<open>e\<close> the text of the
  exception). The outcome may depend on the iteration and not on the chart alone: the
  display library can refuse at a later iteration a chart it has drawn at an earlier one.
  One iteration takes the plot counter and returns the new counter and the widget it
  shows: the chart and \<open>plot_counter += 1\<close> on success, the warning from the \<open>except\<close>
  branch on failure, the notice when \<open>chart_type\<close> stayed \<open>None\<close>.
\<close>

definition chart_slot :: "(nat \<Rightarrow> chart \<Rightarrow> string option) \<Rightarrow> selection \<Rightarrow> nat \<Rightarrow> nat \<Rightarrow> nat \<times> widget" where
  "chart_slot render sel i plot_counter =
    (case slot_rule sel i of
       None \<Rightarrow> (plot_counter, InfoBox no_chart_notice)
     | Some (chart_type, cols, fig) \<Rightarrow>
         (case render i fig of
            None \<Rightarrow> (plot_counter + 1, PlotlyChart fig)
          | Some e \<Rightarrow> (plot_counter, WarningBox (could_not_create chart_type cols e))))"

text \<open>
  The loop over the slot indices. Each shown widget is recorded with the index of its
  iteration and the layout column \<open>plot_counter % 3\<close> it is placed in.
\<close>

fun chart_loop :: "(nat \<Rightarrow> chart \<Rightarrow> string option) \<Rightarrow> selection \<Rightarrow> nat list \<Rightarrow> nat \<Rightarrow> (nat \<times> nat \<times> widget) list" where
  "chart_loop render sel [] plot_counter = []"
| "chart_loop render sel (i # rest) plot_counter =
     (case chart_slot render sel i plot_counter of
        (plot_counter', w) \<Rightarrow> (i, plot_counter mod 3, w) # chart_loop render sel rest plot_counter')"

definition slot_count :: "selection \<Rightarrow> nat" where
  "slot_count sel = min 9 (length (numeric_columns sel) + length (categorical_columns sel))"

definition dynamic_report :: "(nat \<Rightarrow> chart \<Rightarrow> string option) \<Rightarrow> selection \<Rightarrow> (nat \<times> nat \<times> widget) list" where
  "dynamic_report render sel = chart_loop render sel [0..<slot_count sel] 0"

text \<open>The status of a slot, read from the widget its iteration showed.\<close>

datatype slot_status = Produced chart | Skipped string

fun status_of :: "widget \<Rightarrow> slot_status" where
  "status_of (PlotlyChart fig) = Produced fig"
| "status_of (WarningBox m) = Skipped m"
| "status_of (InfoBox m) = Skipped m"

definition slot_statuses :: "(nat \<times> nat \<times> widget) list \<Rightarrow> (nat \<times> slot_status) list" where
  "slot_statuses evs = map (\<lambda>(i, c, w). (i, status_of w)) evs"


text \<open>The chart type bound to each rule number, in the order of the chain.\<close>

definition rule_chart_type :: "nat \<Rightarrow> string" where
  "rule_chart_type k =
     [''Scatter Plot'', ''Pie Chart'', ''Bar Chart (Mean Sales)'', ''Histogram'', ''Box Plot'',
      ''Time Series (Sales)'', ''Scatter Plot (with Category)''] ! k"


subsection \<open>Example selections\<close>


definition sel1 :: selection where
  "sel1 = \<lparr>numeric_columns = [''price''], categorical_columns = [],
            date_column = None, category_column = None, sales_column = Some ''price''\<rparr>"

definition sel2 :: selection where
  "sel2 = \<lparr>numeric_columns = [''price'', ''qty''], categorical_columns = [],
            date_column = None, category_column = None, sales_column = None\<rparr>"

definition sel9 :: selection where
  \<comment> \<open>nine columns, so nine iterations: iterations 1 and 8 both draw the pie of \<open>region\<close>\<close>
  "sel9 = \<lparr>numeric_columns = [''n0'', ''n1'', ''n2'', ''n3'', ''n4'', ''n5'', ''n6'', ''n7''],
            categorical_columns = [''region''],
            date_column = None, category_column = None, sales_column = Some ''n0''\<rparr>"

definition second_pie_raises :: "nat \<Rightarrow> chart \<Rightarrow> string option" where
  \<comment> \<open>a display library that draws everything at first and refuses, at iteration 8, the
      pie chart it has already drawn\<close>
  "second_pie_raises i fig =
     (case fig of Pie names title \<Rightarrow> if i = 8 then Some ''duplicate element'' else None
      | _ \<Rightarrow> None)"

section \<open>Tables\<close>

text \<open>
  A table is a list of rows, and a row gives a cell for every column name. A cell is a
  number, a string, a timestamp (seconds since the epoch) or missing (NaN, NaT, None).
  Numbers are real numbers: the rounding of floating-point arithmetic is not modelled.
  A column of numeric type holds numbers and missing cells only.
\<close>

datatype cell = Num real | Str string | TS int | Missing

type_synonym row = "string \<Rightarrow> cell"

type_synonym frame = "row list"

definition column :: "string \<Rightarrow> frame \<Rightarrow> cell list" where
  "column col df = map (\<lambda>r. r col) df"

definition is_numeric_cell :: "cell \<Rightarrow> bool" where
  "is_numeric_cell c = (case c of Num x \<Rightarrow> True | Missing \<Rightarrow> True | _ \<Rightarrow> False)"

definition numeric_in :: "string \<Rightarrow> frame \<Rightarrow> bool" where
  "numeric_in col df = list_all is_numeric_cell (column col df)"

subsection \<open>Column classification and the select boxes\<close>

datatype dtype = Int64 | Float64 | Bool | Object | Datetime64

definition is_number :: "dtype \<Rightarrow> bool" where
  "is_number d = (d = Int64 \<or> d = Float64)"

text \<open>
  \<open>select_dtypes(include=['number'])\<close> and \<open>select_dtypes(exclude=['number'])\<close> over
  the column names of the table, with the type of each column. The select box of the
  category role offers \<open>None\<close> and the categorical columns, the one of the sales role
  \<open>None\<close> and the numeric columns, the one of the date role \<open>None\<close>, the categorical
  columns and the datetime columns.
\<close>

definition classified :: "string list \<Rightarrow> (string \<Rightarrow> dtype) \<Rightarrow> selection \<Rightarrow> bool" where
  "classified all_columns dtypes sel =
     (numeric_columns sel = filter (\<lambda>c. is_number (dtypes c)) all_columns \<and>
      categorical_columns sel = filter (\<lambda>c. \<not> is_number (dtypes c)) all_columns \<and>
      (case category_column sel of None \<Rightarrow> True
       | Some c \<Rightarrow> c \<in> set (categorical_columns sel)) \<and>
      (case sales_column sel of None \<Rightarrow> True
       | Some c \<Rightarrow> c \<in> set (numeric_columns sel)) \<and>
      (case date_column sel of None \<Rightarrow> True
       | Some c \<Rightarrow> c \<in> set (categorical_columns sel) \<or>
                   c \<in> set (filter (\<lambda>c. dtypes c = Datetime64) all_columns)))"

subsection \<open>Coercion of the sales column\<close>

text \<open>
  \<open>pd.to_numeric(..., errors='coerce').fillna(0)\<close> on the sales column: a number stays,
  everything else becomes NaN, and NaN becomes 0. The sales column is chosen among the
  numeric columns, so the cells it really holds are numbers and missing cells.
\<close>

definition to_numeric :: "cell \<Rightarrow> cell" where
  "to_numeric c = (case c of Num x \<Rightarrow> Num x | _ \<Rightarrow> Missing)"

definition fillna0 :: "cell \<Rightarrow> cell" where
  "fillna0 c = (case c of Missing \<Rightarrow> Num 0 | _ \<Rightarrow> c)"

definition coerce_sales :: "string option \<Rightarrow> frame \<Rightarrow> frame" where
  "coerce_sales sales df =
     (case sales of
        None \<Rightarrow> df
      | Some col \<Rightarrow> if col = [] then df
                    else map (\<lambda>r. r(col := fillna0 (to_numeric (r col)))) df)"

section \<open>Filters\<close>

text \<open>
  The date range keeps the rows whose timestamp, as a calendar day (\<open>.dt.date\<close>), lies
  between the two chosen days; a comparison with a missing date is false.
\<close>

definition dt_date :: "int \<Rightarrow> int" where
  "dt_date t = t div 86400"

definition in_date_range :: "string \<Rightarrow> int \<Rightarrow> int \<Rightarrow> row \<Rightarrow> bool" where
  "in_date_range col date1 date2 r =
     (case r col of TS t \<Rightarrow> date1 \<le> dt_date t \<and> dt_date t \<le> date2 | _ \<Rightarrow> False)"

definition apply_date_range :: "(string \<times> int \<times> int) option \<Rightarrow> frame \<Rightarrow> frame" where
  "apply_date_range dr df =
     (case dr of None \<Rightarrow> df
      | Some (col, date1, date2) \<Rightarrow> filter (in_date_range col date1 date2) df)"

text \<open>
  The sidebar filters: a dictionary from column name to the selected values, applied one
  after the other in the order of the dictionary (\<open>isin\<close>).
\<close>

fun apply_filters :: "(string \<times> cell list) list \<Rightarrow> frame \<Rightarrow> frame" where
  "apply_filters [] df = df"
| "apply_filters ((col, vals) # rest) df =
     apply_filters rest (filter (\<lambda>r. r col \<in> set vals) df)"

definition filtered_view :: "(string \<times> int \<times> int) option \<Rightarrow> (string \<times> cell list) list \<Rightarrow> frame \<Rightarrow> frame" where
  "filtered_view dr filters df = apply_filters filters (apply_date_range dr df)"

definition row_index_set :: "frame \<Rightarrow> string \<times> cell list \<Rightarrow> nat set" where
  \<comment> \<open>the positions of the rows one filter keeps\<close>
  "row_index_set df f = {i. i < length df \<and> (df ! i) (fst f) \<in> set (snd f)}"

section \<open>Key performance indicators\<close>

text \<open>
  The aggregates of the SQL engine over one column of a registered table: \<open>SUM\<close>,
  \<open>COUNT(DISTINCT)\<close>, \<open>MIN\<close> and \<open>MAX\<close> skip NULL (a missing cell) and \<open>SUM\<close>, \<open>MIN\<close>,
  \<open>MAX\<close> are NULL when nothing is left; \<open>COUNT(*)\<close> counts the rows. The summed column
  is the sales column, which holds numbers only after its coercion, and the column of
  \<open>MIN\<close> and \<open>MAX\<close> is the date column, which holds timestamps and missing cells after
  its conversion to datetime; cells of another kind are passed over like NULL.
\<close>

definition num_values :: "string \<Rightarrow> frame \<Rightarrow> real list" where
  "num_values col df = concat (map (\<lambda>r. case r col of Num x \<Rightarrow> [x] | _ \<Rightarrow> []) df)"

definition ts_values :: "string \<Rightarrow> frame \<Rightarrow> int list" where
  "ts_values col df = concat (map (\<lambda>r. case r col of TS t \<Rightarrow> [t] | _ \<Rightarrow> []) df)"

definition sql_sum :: "string \<Rightarrow> frame \<Rightarrow> real option" where
  "sql_sum col df = (let xs = num_values col df in if xs = [] then None else Some (sum_list xs))"

definition sql_count :: "frame \<Rightarrow> nat" where
  "sql_count df = length df"

definition sql_count_distinct :: "string \<Rightarrow> frame \<Rightarrow> nat" where
  "sql_count_distinct col df = length (remdups (filter (\<lambda>c. c \<noteq> Missing) (column col df)))"

definition sql_min_max :: "string \<Rightarrow> frame \<Rightarrow> int option \<times> int option" where
  "sql_min_max col df =
     (case ts_values col df of
        [] \<Rightarrow> (None, None)
      | t # ts \<Rightarrow> (Some (fold min ts t), Some (fold max ts t)))"

definition or_zero :: "real option \<Rightarrow> real" where
  \<comment> \<open>Python's \<open>x or 0\<close>: 0 when \<open>x\<close> is \<open>None\<close> or zero\<close>
  "or_zero v = (case v of None \<Rightarrow> 0 | Some x \<Rightarrow> if x = 0 then 0 else x)"

record kpis =
  total_sales :: "real option"
  total_transactions :: nat
  unique_categories :: "nat option"
  date_range :: "(int option \<times> int option) option"

definition compute_kpis :: "selection \<Rightarrow> frame \<Rightarrow> kpis" where
  "compute_kpis sel df =
     \<lparr>total_sales =
        (if truthy (sales_column sel)
         then Some (or_zero (sql_sum (role_name (sales_column sel)) df)) else None),
      total_transactions = sql_count df,
      unique_categories =
        (if truthy (category_column sel)
         then Some (sql_count_distinct (role_name (category_column sel)) df) else None),
      date_range =
        (if truthy (date_column sel)
         then Some (sql_min_max (role_name (date_column sel)) df) else None)\<rparr>"

definition zero_if_not_number :: "cell \<Rightarrow> real" where
  "zero_if_not_number c = (case c of Num x \<Rightarrow> x | _ \<Rightarrow> 0)"

subsection \<open>Example table\<close>

definition mk_row :: "int \<Rightarrow> string \<Rightarrow> cell \<Rightarrow> cell \<Rightarrow> row" where
  "mk_row t region revenue qty =
     (\<lambda>_. Missing)(''day'' := TS t, ''region'' := Str region, ''revenue'' := revenue, ''qty'' := qty)"

definition sales_table :: frame where
  "sales_table = [mk_row 10 ''East'' (Num 10) (Num 1),
                  mk_row 86400 ''West'' (Num 20) Missing,
                  mk_row 172800 ''East'' Missing (Num 3)]"

definition sales_sel :: selection where
  "sales_sel = \<lparr>numeric_columns = [''revenue'', ''qty''], categorical_columns = [''day'', ''region''],
                 date_column = Some ''day'', category_column = Some ''region'',
                 sales_column = Some ''revenue''\<rparr>"

section \<open>Session and script state\<close>

text \<open>
  \<open>st.session_state\<close> is all that survives from one run of the script to the next; a
  key that was never set is \<open>None\<close>.
\<close>

record session_state =
  story_step :: "nat option"
  trivia_score :: "nat option"
  question_asked :: "bool option"

text \<open>
  The variables of one run that the What-If tab can reach. Data frames are objects: the
  heap holds them, a variable holds the address of one (always the address of a frame
  on the heap), and a database connection maps the name of a registered table to the
  address of its frame.
\<close>

record script_state =
  heap :: "frame list"
  filtered_df :: nat
  con :: "(string \<times> nat) list"
  kpi_data :: kpis
  session :: session_state

definition state_at_tabs :: "selection \<Rightarrow> frame \<Rightarrow> session_state \<Rightarrow> script_state" where
  \<comment> \<open>the state when the tabs are reached: the filtered view is registered as
      \<open>sales_data\<close> and the indicators are computed from it\<close>
  "state_at_tabs sel view ss =
     \<lparr>heap = [view], filtered_df = 0, con = [(''sales_data'', 0)],
      kpi_data = compute_kpis sel view, session = ss\<rparr>"

section \<open>What-If analysis\<close>

text \<open>
  Multiplying a column by the change factor: a number is scaled, a missing number stays
  missing (NaN times anything is NaN), and a string or a timestamp cannot be multiplied
  by a float, which raises.
\<close>

definition scale_cell :: "real \<Rightarrow> cell \<Rightarrow> string + cell" where
  "scale_cell change_factor c =
     (case c of
        Num x \<Rightarrow> Inr (Num (x * change_factor))
      | Missing \<Rightarrow> Inr Missing
      | Str s \<Rightarrow> Inl ''TypeError''
      | TS t \<Rightarrow> Inl ''TypeError'')"

fun scale_column :: "string \<Rightarrow> real \<Rightarrow> frame \<Rightarrow> string + frame" where
  "scale_column col change_factor [] = Inr []"
| "scale_column col change_factor (r # rs) =
     (case scale_cell change_factor (r col) of
        Inl e \<Rightarrow> Inl e
      | Inr c \<Rightarrow>
          (case scale_column col change_factor rs of
             Inl e \<Rightarrow> Inl e
           | Inr rs' \<Rightarrow> Inr (r(col := c) # rs')))"

datatype whatif_view =
    No_Numeric_Columns
  | Not_Applied
  | WhatIf_Error string
  | WhatIf_Shown frame frame kpis

text \<open>
  The body of the \<open>try\<close> block. \<open>filtered_df.copy()\<close> allocates a new frame, the column
  assignment updates that new frame in place, a fresh connection registers it as
  \<open>modified_data\<close>, and the indicators are computed again through that connection.
  The view shows the first five rows of both frames and the new indicators; an exception
  ends in the \<open>except\<close> branch.
\<close>

definition what_if :: "selection \<Rightarrow> string \<Rightarrow> real \<Rightarrow> script_state \<Rightarrow> script_state \<times> whatif_view" where
  "what_if sel selected_whatif_column percentage_change st =
     (let modified_whatif_df = length (heap st);
          st1 = st\<lparr>heap := heap st @ [heap st ! filtered_df st]\<rparr>;
          change_factor = 1 + percentage_change / 100
      in case scale_column selected_whatif_column change_factor (heap st1 ! modified_whatif_df) of
           Inl e \<Rightarrow> (st1, WhatIf_Error (''An error occurred during What-If analysis: '' @ e))
         | Inr scaled \<Rightarrow>
             (let st2 = st1\<lparr>heap := (heap st1)[modified_whatif_df := scaled]\<rparr>;
                  temp_con = [(''modified_data'', modified_whatif_df)]
              in case map_of temp_con ''modified_data'' of
                   None \<Rightarrow> (st2, WhatIf_Error
                       (''An error occurred during What-If analysis: '' @ ''Catalog Error''))
                 | Some a \<Rightarrow>
                     (st2, WhatIf_Shown (take 5 (heap st2 ! filtered_df st2))
                                        (take 5 (heap st2 ! modified_whatif_df))
                                        (compute_kpis sel (heap st2 ! a)))))"

definition what_if_tab :: "selection \<Rightarrow> string \<Rightarrow> real \<Rightarrow> bool \<Rightarrow> script_state \<Rightarrow> script_state \<times> whatif_view" where
  "what_if_tab sel selected_whatif_column percentage_change clicked st =
     (if numeric_columns sel = [] then (st, No_Numeric_Columns)
      else if clicked \<and> selected_whatif_column \<noteq> []
           then what_if sel selected_whatif_column percentage_change st
           else (st, Not_Applied))"

section \<open>Storyteller\<close>

definition story_steps :: "selection \<Rightarrow> (string \<times> chart) list" where
  "story_steps sel =
     (let sales = sales_column sel; category = category_column sel; date = date_column sel
      in
      (if truthy sales
       then [(''What is the distribution of '' @ role_name sales @ ''?'',
              Histogram (role_name sales) (''Distribution of '' @ role_name sales))]
       else []) @
      (if truthy category \<and> truthy sales
       then [(''What is the average '' @ role_name sales @ '' by '' @ role_name category @ ''?'',
              BarMean (role_name category) (role_name sales) None
                (''Average '' @ role_name sales @ '' by '' @ role_name category))]
       else []) @
      (if truthy date \<and> truthy sales
       then [(''How has '' @ role_name sales @ '' trended over time?'',
              Line (role_name date) (role_name sales) (role_name sales @ '' Over Time''))]
       else []) @
      (if truthy category
       then [(''What is the distribution of '' @ role_name category @ ''?'',
              Pie (role_name category) (''Distribution of '' @ role_name category))]
       else []))"

datatype button = Next | Restart_Story

datatype story_view = No_Story | Show_Step nat string chart | End_Of_Story

definition init_story :: "session_state \<Rightarrow> session_state" where
  \<comment> \<open>\<open>if "story_step" not in st.session_state: st.session_state["story_step"] = 0\<close>\<close>
  "init_story ss = (case story_step ss of None \<Rightarrow> ss\<lparr>story_step := Some 0\<rparr> | Some c \<Rightarrow> ss)"

definition current_step :: "session_state \<Rightarrow> nat" where
  "current_step ss = (case story_step ss of None \<Rightarrow> 0 | Some c \<Rightarrow> c)"

text \<open>
  One run of the tab. The \<open>Next\<close> button exists only while a step is shown and the
  \<open>Restart Story\<close> button only at the end, so a click counts only in its own branch.
\<close>

definition storyteller :: "selection \<Rightarrow> button option \<Rightarrow> session_state \<Rightarrow> session_state \<times> story_view" where
  "storyteller sel clicked ss =
     (let ss0 = init_story ss; steps = story_steps sel; cur = current_step ss0
      in if steps = [] then (ss0, No_Story)
         else if cur < length steps then
           (if clicked = Some Next then ss0\<lparr>story_step := Some (cur + 1)\<rparr> else ss0,
            Show_Step (cur + 1) (fst (steps ! cur)) (snd (steps ! cur)))
         else
           (if clicked = Some Restart_Story then ss0\<lparr>story_step := Some 0\<rparr> else ss0,
            End_Of_Story))"

section \<open>Trivia\<close>

text \<open>
  The random draws are an argument: one draw for each \<open>random.choice\<close> and, for
  \<open>random.shuffle\<close>, one draw for each position. \<open>random.choice\<close> takes the element at
  the drawn index; \<open>random.shuffle\<close> walks from the last position down to position 1 and
  swaps each position \<open>i\<close> with a drawn position \<open>j \<le> i\<close>.
\<close>

record rng =
  type_draw :: nat
  column_draw :: nat
  shuffle_draw :: "nat \<Rightarrow> nat"

definition choice :: "nat \<Rightarrow> 'a list \<Rightarrow> 'a" where
  "choice k xs = xs ! (k mod length xs)"

fun shuffle_from :: "(nat \<Rightarrow> nat) \<Rightarrow> nat \<Rightarrow> 'a list \<Rightarrow> 'a list" where
  "shuffle_from draw 0 xs = xs"
| "shuffle_from draw (Suc i) xs =
     (let j = draw (Suc i) mod (Suc i + 1)
      in shuffle_from draw i (xs[Suc i := xs ! j, j := xs ! Suc i]))"

definition shuffle :: "(nat \<Rightarrow> nat) \<Rightarrow> 'a list \<Rightarrow> 'a list" where
  "shuffle draw xs = shuffle_from draw (length xs - 1) xs"

text \<open>Statistics of a numeric column, skipping missing values; \<open>None\<close> is NaN.\<close>

definition series_mean :: "real list \<Rightarrow> real option" where
  "series_mean xs = (if xs = [] then None else Some (sum_list xs / real (length xs)))"

definition series_median :: "real list \<Rightarrow> real option" where
  "series_median xs =
     (let s = sort xs; n = length xs
      in if n = 0 then None
         else if odd n then Some (s ! (n div 2))
         else Some ((s ! (n div 2 - 1) + s ! (n div 2)) / 2))"

definition series_min :: "real list \<Rightarrow> real option" where
  "series_min xs = (case xs of [] \<Rightarrow> None | x # rest \<Rightarrow> Some (fold min rest x))"

definition series_max :: "real list \<Rightarrow> real option" where
  "series_max xs = (case xs of [] \<Rightarrow> None | x # rest \<Rightarrow> Some (fold max rest x))"

text \<open>
  \<open>mode()\<close> drops the missing values and returns the values with the highest count in
  sorted order; \<open>value_counts()\<close> drops the missing values and lists the distinct values
  by falling count, values of equal count in the order of their first appearance.
\<close>

definition cell_key :: "cell \<Rightarrow> nat \<times> real \<times> string \<times> int" where
  "cell_key c =
     (case c of Num x \<Rightarrow> (0, x, [], 0) | Str s \<Rightarrow> (1, 0, s, 0)
      | TS t \<Rightarrow> (2, 0, [], t) | Missing \<Rightarrow> (3, 0, [], 0))"

definition present :: "cell list \<Rightarrow> cell list" where
  "present vals = filter (\<lambda>c. c \<noteq> Missing) vals"

definition series_mode :: "cell list \<Rightarrow> cell list" where
  "series_mode vals =
     (let p = present vals; ds = remdups p
      in sort_key cell_key
           (filter (\<lambda>v. list_all (\<lambda>w. count_list p w \<le> count_list p v) ds) ds))"

definition value_counts :: "cell list \<Rightarrow> cell list" where
  "value_counts vals =
     (let p = present vals
      in sort_key (\<lambda>v. - int (count_list p v)) (rev (remdups (rev p))))"

datatype py_error = KeyError | IndexError

definition top_value :: "cell list \<Rightarrow> py_error + cell" where
  \<comment> \<open>\<open>df[col].mode()[0] if not df[col].empty else "N/A"\<close>\<close>
  "top_value vals =
     (if vals = [] then Inr (Str ''N/A'')
      else case series_mode vals of [] \<Rightarrow> Inl KeyError | v # rest \<Rightarrow> Inr v)"

definition set_last :: "'a list \<Rightarrow> 'a \<Rightarrow> py_error + 'a list" where
  \<comment> \<open>\<open>xs[-1] = v\<close>\<close>
  "set_last xs v = (if xs = [] then Inl IndexError else Inr (xs[length xs - 1 := v]))"

definition quoted :: "string \<Rightarrow> string" where
  "quoted s = CHR 0x27 # s @ [CHR 0x27]"

record trivia =
  question :: string
  correct_answer :: cell
  options :: "cell list"

text \<open>
  \<open>fmt\<close> is the formatting of a float with two decimals (\<open>f"{x:.2f}"\<close>). The result is
  the question, or \<open>None\<close> where the script returns \<open>(None, None, None)\<close>, or the exception
  that leaves the function.
\<close>

definition generate_trivia_question ::
    "(real option \<Rightarrow> string) \<Rightarrow> rng \<Rightarrow> frame \<Rightarrow> string list \<Rightarrow> string list \<Rightarrow> py_error + trivia option" where
  "generate_trivia_question fmt rnd df num_cols cat_cols =
     (if num_cols = [] \<and> cat_cols = [] then Inr None
      else
        let question_type = choice (type_draw rnd) [''average'', ''value_counts'']
        in
        if question_type = ''average'' \<and> num_cols \<noteq> [] then
          (let col = choice (column_draw rnd) num_cols;
               xs = num_values col df;
               correct = fmt (series_mean xs);
               opts = [correct, fmt (series_median xs), fmt (series_min xs), fmt (series_max xs)]
           in Inr (Some \<lparr>question = ''What is the average value of '' @ quoted col @ ''?'',
                         correct_answer = Str correct,
                         options = map Str (shuffle (shuffle_draw rnd) opts)\<rparr>))
        else if question_type = ''value_counts'' \<and> cat_cols \<noteq> [] then
          (let col = choice (column_draw rnd) cat_cols;
               vals = column col df
           in case top_value vals of
                Inl e \<Rightarrow> Inl e
              | Inr top_val \<Rightarrow>
                  (let counts = take 4 (value_counts vals)
                   in case (if top_val \<noteq> Str ''N/A'' \<and> top_val \<notin> set counts
                            then set_last counts top_val else Inr counts) of
                        Inl e \<Rightarrow> Inl e
                      | Inr counts' \<Rightarrow>
                          Inr (Some \<lparr>question = ''Which category appears most frequently in ''
                                                  @ quoted col @ ''?'',
                                        correct_answer = top_val,
                                        options = shuffle (shuffle_draw rnd) counts'\<rparr>)))
        else Inr None)"

subsection \<open>Example states and draws\<close>

definition session0 :: session_state where
  "session0 = \<lparr>story_step = None, trivia_score = None, question_asked = None\<rparr>"

definition sales_view :: frame where
  "sales_view = filtered_view None [] (coerce_sales (sales_column sales_sel) sales_table)"

definition sales_state :: script_state where
  "sales_state = state_at_tabs sales_sel sales_view session0"

definition draws1 :: rng where
  "draws1 = \<lparr>type_draw = 1, column_draw = 0, shuffle_draw = (\<lambda>i. 0)\<rparr>"

definition draws0 :: rng where
  "draws0 = \<lparr>type_draw = 0, column_draw = 0, shuffle_draw = (\<lambda>i. 0)\<rparr>"

definition sales_dtypes :: "string \<Rightarrow> dtype" where
  "sales_dtypes c = (if c = ''revenue'' \<or> c = ''qty'' then Float64 else Object)"

definition letters_table :: frame where
  \<comment> \<open>one column \<open>letter\<close> with five values, each once\<close>
  "letters_table =
     map (\<lambda>s. (\<lambda>_. Missing)(''letter'' := Str s)) [''e'', ''d'', ''c'', ''b'', ''a'']"

definition two_decimals :: "real option \<Rightarrow> string" where
  \<comment> \<open>a stand-in for the formatting of a float, good enough to tell the statistics apart\<close>
  "two_decimals v = (case v of None \<Rightarrow> ''nan'' | Some x \<Rightarrow> (if x = 10 then ''10.00'' else ''other''))"

definition renders_all :: "nat \<Rightarrow> chart \<Rightarrow> string option" where
  \<comment> \<open>a plotting library that never raises\<close>
  "renders_all i fig = None"

definition all_zero :: "cell list \<Rightarrow> bool" where
  "all_zero cs = list_all (\<lambda>c. c = Num 0) cs"

section \<open>Properties of the chart loop\<close>

lemma chart_slot_status_pc:
  "status_of (snd (chart_slot render sel i pc)) = status_of (snd (chart_slot render sel i 0))"
  by (simp add: chart_slot_def split: option.splits prod.splits)

lemma chart_slot_status_render:
  "render' i = render i \<Longrightarrow>
   status_of (snd (chart_slot render' sel i pc)) = status_of (snd (chart_slot render sel i pc))"
  by (simp add: chart_slot_def split: option.splits prod.splits)

lemma chart_loop_indices: "map fst (chart_loop render sel is pc) = is"
  by (induction "is" arbitrary: pc) (auto split: prod.splits)

lemma chart_loop_statuses:
  "slot_statuses (chart_loop render sel is pc) =
     map (\<lambda>i. (i, status_of (snd (chart_slot render sel i 0)))) is"
proof (induction "is" arbitrary: pc)
  case Nil
  show ?case by (simp add: slot_statuses_def)
next
  case (Cons i rest)
  obtain pc' w where s: "chart_slot render sel i pc = (pc', w)"
    by (cases "chart_slot render sel i pc")
  have "status_of w = status_of (snd (chart_slot render sel i 0))"
    using chart_slot_status_pc [of render sel i pc] s by simp
  then show ?case using Cons.IH [of pc'] s by (simp add: slot_statuses_def)
qed



lemma slot_rule_chart_type:
  "slot_rule sel i = Some (ct, cols, fig) \<Longrightarrow> ct = rule_chart_type (i mod 7)"
  by (auto simp add: slot_rule_def rule_chart_type_def Let_def split: if_splits)





text \<open>
  C1. With exactly two numeric columns \<open>[a, b]\<close> and no categorical column the loop runs
  for \<open>min 9 2 = 2\<close> indices. Index 0 (rule \<open>0 mod 7 = 0\<close>) draws the scatter plot with
  \<open>x = a\<close>, \<open>y = b\<close>: it is shown when the plotting library completes, and replaced by the
  warning of the \<open>except\<close> branch when it raises. Index 1 takes no branch of the chain and
  shows only the notice. For every selection, an index that takes no branch shows the
  notice and leaves the plot counter alone, and an index that takes a branch takes the
  one of rule \<open>i mod 7\<close>: no other template is tried for that index.
\<close>

theorem two_numeric_columns_report:
  assumes "numeric_columns sel = [a, b]" and "categorical_columns sel = []"
  shows "slot_count sel = 2 \<and>
    dynamic_report render sel =
      (case render 0 (Scatter a b None (b @ '' vs '' @ a)) of
         None \<Rightarrow> [(0, 0, PlotlyChart (Scatter a b None (b @ '' vs '' @ a))),
                  (1, 1, InfoBox no_chart_notice)]
       | Some e \<Rightarrow> [(0, 0, WarningBox (could_not_create ''Scatter Plot'' (a @ '', '' @ b) e)),
                    (1, 0, InfoBox no_chart_notice)]) \<and>
    (\<forall>sel' i pc. slot_rule sel' i = None \<longrightarrow>
        chart_slot render sel' i pc = (pc, InfoBox no_chart_notice)) \<and>
    (\<forall>sel' i ct cols fig. slot_rule sel' i = Some (ct, cols, fig) \<longrightarrow>
        ct = rule_chart_type (i mod 7))"
proof -
  have n: "slot_count sel = 2" using assms by (simp add: slot_count_def)
  have r0: "slot_rule sel 0 =
      Some (''Scatter Plot'', a @ '', '' @ b, Scatter a b None (b @ '' vs '' @ a))"
    using assms by (simp add: slot_rule_def)
  have r1: "slot_rule sel (Suc 0) = None"
    using assms by (simp add: slot_rule_def)
  have up: "[0..<2] = [0, 1]" by (simp add: upt_rec)
  have rep: "dynamic_report render sel =
      (case render 0 (Scatter a b None (b @ '' vs '' @ a)) of
         None \<Rightarrow> [(0, 0, PlotlyChart (Scatter a b None (b @ '' vs '' @ a))),
                  (1, 1, InfoBox no_chart_notice)]
       | Some e \<Rightarrow> [(0, 0, WarningBox (could_not_create ''Scatter Plot'' (a @ '', '' @ b) e)),
                    (1, 0, InfoBox no_chart_notice)])"
    by (cases "render 0 (Scatter a b None (b @ '' vs '' @ a))")
       (simp_all add: dynamic_report_def n up chart_slot_def r0 r1)
  have g1: "\<forall>sel' i pc. slot_rule sel' i = None \<longrightarrow>
        chart_slot render sel' i pc = (pc, InfoBox no_chart_notice)"
    by (simp add: chart_slot_def)
  have g2: "\<forall>sel' i ct cols fig. slot_rule sel' i = Some (ct, cols, fig) \<longrightarrow>
        ct = rule_chart_type (i mod 7)"
    using slot_rule_chart_type by blast
  show ?thesis using n rep g1 g2 by blast
qed

theorem two_numeric_columns_report_witness:
  "dynamic_report renders_all sel2 =
     [(0, 0, PlotlyChart (Scatter ''price'' ''qty'' None ''qty vs price'')),
      (1, 1, InfoBox no_chart_notice)] \<and>
   slot_rule sel2 1 = None \<and>
   chart_slot renders_all sel2 1 1 = (1, InfoBox no_chart_notice) \<and>
   slot_rule sel2 0 =
     Some (''Scatter Plot'', ''price, qty'', Scatter ''price'' ''qty'' None ''qty vs price'')"
proof -
  have a: "numeric_columns sel2 = [''price'', ''qty'']" "categorical_columns sel2 = []"
    by (simp_all add: sel2_def)
  have r1: "slot_rule sel2 1 = None" by (simp add: slot_rule_def sel2_def Let_def)
  have r0: "slot_rule sel2 0 =
      Some (''Scatter Plot'', ''price, qty'', Scatter ''price'' ''qty'' None ''qty vs price'')"
    by (simp add: slot_rule_def sel2_def Let_def)
  show ?thesis
    using two_numeric_columns_report [OF a, of renders_all] r1 r0 by (simp add: renders_all_def)
qed



text \<open>
  C8. Whatever the plotting and display libraries do at each index, the loop visits every
  index \<open>0 ..< slot_count\<close> in order, and the status of each slot is the one its own
  iteration yields: it depends on the outcome of drawing at that index only, not on the
  outcomes at the other indices (the plot counter, which earlier failures leave behind,
  only moves the layout column). An index whose chart raises \<open>e\<close> shows the warning
  \<open>Could not create <chart type> (<columns>): e\<close>, keeps the plot counter, and is Skipped
  with that message.
\<close>

theorem slot_failure_does_not_abort:
  "map fst (dynamic_report render sel) = [0..<slot_count sel] \<and>
   slot_statuses (dynamic_report render sel) =
     map (\<lambda>i. (i, status_of (snd (chart_slot render sel i 0)))) [0..<slot_count sel] \<and>
   (\<forall>i ct cols fig e pc. slot_rule sel i = Some (ct, cols, fig) \<longrightarrow> render i fig = Some e \<longrightarrow>
      chart_slot render sel i pc = (pc, WarningBox (could_not_create ct cols e)) \<and>
      status_of (snd (chart_slot render sel i pc)) = Skipped (could_not_create ct cols e)) \<and>
   (\<forall>render' i. i < slot_count sel \<longrightarrow> render' i = render i \<longrightarrow>
      slot_statuses (dynamic_report render' sel) ! i = slot_statuses (dynamic_report render sel) ! i)"
proof -
  have a: "map fst (dynamic_report render sel) = [0..<slot_count sel]"
    by (simp add: dynamic_report_def chart_loop_indices)
  have b: "slot_statuses (dynamic_report r sel) =
     map (\<lambda>i. (i, status_of (snd (chart_slot r sel i 0)))) [0..<slot_count sel]" for r
    by (simp add: dynamic_report_def chart_loop_statuses)
  have c: "\<forall>i ct cols fig e pc. slot_rule sel i = Some (ct, cols, fig) \<longrightarrow> render i fig = Some e \<longrightarrow>
      chart_slot render sel i pc = (pc, WarningBox (could_not_create ct cols e)) \<and>
      status_of (snd (chart_slot render sel i pc)) = Skipped (could_not_create ct cols e)"
    by (simp add: chart_slot_def)
  have d: "\<forall>render' i. i < slot_count sel \<longrightarrow> render' i = render i \<longrightarrow>
      slot_statuses (dynamic_report render' sel) ! i = slot_statuses (dynamic_report render sel) ! i"
  proof (intro allI impI)
    fix render' i
    assume i: "i < slot_count sel" and e: "render' i = render i"
    have "status_of (snd (chart_slot render' sel i 0)) = status_of (snd (chart_slot render sel i 0))"
      using e by (rule chart_slot_status_render)
    then show "slot_statuses (dynamic_report render' sel) ! i =
        slot_statuses (dynamic_report render sel) ! i"
      using i unfolding b by simp
  qed
  show ?thesis using a b [of render] c d by blast
qed

theorem slot_failure_does_not_abort_witness:
  "slot_count sel9 = 9 \<and>
   slot_rule sel9 1 = Some (''Pie Chart'', ''region'', Pie ''region'' ''Distribution of region'') \<and>
   slot_rule sel9 8 = Some (''Pie Chart'', ''region'', Pie ''region'' ''Distribution of region'') \<and>
   second_pie_raises 1 (Pie ''region'' ''Distribution of region'') = None \<and>
   second_pie_raises 8 (Pie ''region'' ''Distribution of region'') = Some ''duplicate element'' \<and>
   map fst (dynamic_report second_pie_raises sel9) = [0..<9] \<and>
   slot_statuses (dynamic_report second_pie_raises sel9) ! 1 =
     (1, Produced (Pie ''region'' ''Distribution of region'')) \<and>
   slot_statuses (dynamic_report second_pie_raises sel9) ! 8 =
     (8, Skipped ''Could not create Pie Chart (region): duplicate element'')"
proof -
  let ?pie = "Pie ''region'' ''Distribution of region''"
  have n9: "slot_count sel9 = 9" by (simp add: sel9_def slot_count_def)
  have p1: "slot_rule sel9 1 = Some (''Pie Chart'', ''region'', ?pie)"
    by (simp add: slot_rule_def sel9_def Let_def)
  have p8: "slot_rule sel9 8 = Some (''Pie Chart'', ''region'', ?pie)"
    by (simp add: slot_rule_def sel9_def Let_def)
  have o1: "second_pie_raises 1 ?pie = None"
    by (simp add: second_pie_raises_def)
  have o8: "second_pie_raises 8 ?pie = Some ''duplicate element''"
    by (simp add: second_pie_raises_def)
  have c1: "chart_slot second_pie_raises sel9 1 0 = (1, PlotlyChart ?pie)"
    using p1 o1 by (simp add: chart_slot_def)
  have c8: "chart_slot second_pie_raises sel9 8 0 =
      (0, WarningBox ''Could not create Pie Chart (region): duplicate element'')"
    using p8 o8 by (simp add: chart_slot_def could_not_create_def)
  note t9 = slot_failure_does_not_abort [of second_pie_raises sel9]
  have i9: "map fst (dynamic_report second_pie_raises sel9) = [0..<9]"
    using t9 [THEN conjunct1] unfolding n9 .
  have s9: "slot_statuses (dynamic_report second_pie_raises sel9) =
     map (\<lambda>i. (i, status_of (snd (chart_slot second_pie_raises sel9 i 0)))) [0..<9]"
    using t9 [THEN conjunct2, THEN conjunct1] unfolding n9 .
  have u1: "[0..<9] ! 1 = (1::nat)" using nth_upt [of 0 1 9] by simp
  have u8: "[0..<9] ! 8 = (8::nat)" using nth_upt [of 0 8 9] by simp
  have "slot_statuses (dynamic_report second_pie_raises sel9) ! 1 =
      (\<lambda>i. (i, status_of (snd (chart_slot second_pie_raises sel9 i 0)))) ([0..<9] ! 1)"
    unfolding s9 by (rule nth_map) simp
  then have s1: "slot_statuses (dynamic_report second_pie_raises sel9) ! 1 = (1, Produced ?pie)"
    unfolding u1 c1 by simp
  have "slot_statuses (dynamic_report second_pie_raises sel9) ! 8 =
      (\<lambda>i. (i, status_of (snd (chart_slot second_pie_raises sel9 i 0)))) ([0..<9] ! 8)"
    unfolding s9 by (rule nth_map) simp
  then have s8: "slot_statuses (dynamic_report second_pie_raises sel9) ! 8 =
     (8, Skipped ''Could not create Pie Chart (region): duplicate element'')"
    unfolding u8 c8 by simp
  show ?thesis using n9 p1 p8 o1 o8 i9 s1 s8 by blast
qed

section \<open>Properties of the filters\<close>

lemma apply_filters_filter:
  "apply_filters fs df = filter (\<lambda>r. list_all (\<lambda>f. r (fst f) \<in> set (snd f)) fs) df"
proof (induction fs arbitrary: df)
  case Nil
  show ?case by simp
next
  case (Cons f fs)
  obtain col vals where f: "f = (col, vals)" by (cases f)
  show ?case using Cons.IH [of "filter (\<lambda>r. r col \<in> set vals) df"]
    by (simp add: f conj_commute)
qed

lemma apply_date_range_filter:
  "apply_date_range dr df =
     filter (\<lambda>r. case dr of None \<Rightarrow> True | Some (col, d1, d2) \<Rightarrow> in_date_range col d1 d2 r) df"
  by (simp add: apply_date_range_def split: option.splits)

lemma filtered_view_filter:
  "filtered_view dr fs df =
     filter (\<lambda>r. (case dr of None \<Rightarrow> True | Some (col, d1, d2) \<Rightarrow> in_date_range col d1 d2 r) \<and>
                 list_all (\<lambda>f. r (fst f) \<in> set (snd f)) fs) df"
  by (simp add: filtered_view_def apply_filters_filter apply_date_range_filter conj_commute)

lemma nths_cong_below:
  assumes "\<And>i. i < length xs \<Longrightarrow> (i \<in> A) = (i \<in> B)"
  shows "nths xs A = nths xs B"
proof -
  have "filter (\<lambda>p. snd p \<in> A) (zip xs [0..<length xs]) =
        filter (\<lambda>p. snd p \<in> B) (zip xs [0..<length xs])"
    by (rule filter_cong) (auto simp add: set_zip assms)
  then show ?thesis by (simp add: nths_def)
qed

lemma apply_filters_nths:
  "apply_filters fs df = nths df (\<Inter>f\<in>set fs. row_index_set df f)"
proof -
  have "apply_filters fs df =
      nths df {i. i < length df \<and> list_all (\<lambda>f. (df ! i) (fst f) \<in> set (snd f)) fs}"
    by (simp add: apply_filters_filter filter_eq_nths)
  also have "\<dots> = nths df (\<Inter>f\<in>set fs. row_index_set df f)"
    by (rule nths_cong_below) (auto simp add: row_index_set_def list_all_iff)
  finally show ?thesis .
qed

text \<open>
  C3. Applying one date range and dictionary of sidebar filters and then another gives
  the same view as applying them in the other order. The view the sidebar filters leave
  is the rows of the table at the positions in the intersection of the filters' row-index
  sets, so it does not depend on the order in which the filters are applied.
\<close>

theorem filters_commute:
  "filtered_view dr1 fs1 (filtered_view dr2 fs2 df) =
     filtered_view dr2 fs2 (filtered_view dr1 fs1 df) \<and>
   apply_filters fs df = nths df (\<Inter>f\<in>set fs. row_index_set df f) \<and>
   (mset fs = mset fs' \<longrightarrow> apply_filters fs df = apply_filters fs' df)"
proof -
  have a: "filtered_view dr1 fs1 (filtered_view dr2 fs2 df) =
     filtered_view dr2 fs2 (filtered_view dr1 fs1 df)"
    by (simp add: filtered_view_filter conj_commute conj_left_commute)
  have "set fs = set fs' \<longrightarrow> apply_filters fs df = apply_filters fs' df"
    by (simp add: apply_filters_nths)
  then have c: "mset fs = mset fs' \<longrightarrow> apply_filters fs df = apply_filters fs' df"
    using mset_eq_setD by blast
  show ?thesis using a c apply_filters_nths by blast
qed

theorem filters_commute_witness:
  "mset [(''region'', [Str ''East'']), (''revenue'', [Num 10, Num 20])] =
     mset [(''revenue'', [Num 10, Num 20]), (''region'', [Str ''East''])] \<and>
   apply_filters [(''region'', [Str ''East'']), (''revenue'', [Num 10, Num 20])] sales_table =
     apply_filters [(''revenue'', [Num 10, Num 20]), (''region'', [Str ''East''])] sales_table \<and>
   apply_filters [(''region'', [Str ''East'']), (''revenue'', [Num 10, Num 20])] sales_table =
     [mk_row 10 ''East'' (Num 10) (Num 1)] \<and>
   filtered_view (Some (''day'', 1, 2)) [] (filtered_view None [(''region'', [Str ''East''])] sales_table) =
     filtered_view None [(''region'', [Str ''East''])] (filtered_view (Some (''day'', 1, 2)) [] sales_table) \<and>
   filtered_view (Some (''day'', 1, 2)) [] (filtered_view None [(''region'', [Str ''East''])] sales_table) =
     [mk_row 172800 ''East'' Missing (Num 3)]"
proof -
  have m: "mset [(''region'', [Str ''East'']), (''revenue'', [Num 10, Num (20::real)])] =
     mset [(''revenue'', [Num 10, Num 20]), (''region'', [Str ''East''])]"
    by simp
  have e1: "apply_filters [(''region'', [Str ''East'']), (''revenue'', [Num 10, Num 20])] sales_table =
     [mk_row 10 ''East'' (Num 10) (Num 1)]"
    by (simp add: sales_table_def mk_row_def)
  have e2: "filtered_view (Some (''day'', 1, 2)) [] (filtered_view None [(''region'', [Str ''East''])] sales_table) =
     [mk_row 172800 ''East'' Missing (Num 3)]"
    by (simp add: sales_table_def mk_row_def filtered_view_def apply_date_range_def in_date_range_def dt_date_def)
  note t = filters_commute [of "Some (''day'', 1, 2)" "[]" None "[(''region'', [Str ''East''])]" sales_table
        "[(''region'', [Str ''East'']), (''revenue'', [Num 10, Num 20])]"
        "[(''revenue'', [Num 10, Num 20]), (''region'', [Str ''East''])]"]
  have c1: "filtered_view (Some (''day'', 1, 2)) [] (filtered_view None [(''region'', [Str ''East''])] sales_table) =
     filtered_view None [(''region'', [Str ''East''])] (filtered_view (Some (''day'', 1, 2)) [] sales_table)"
    using t by blast
  have c2: "apply_filters [(''region'', [Str ''East'']), (''revenue'', [Num 10, Num 20])] sales_table =
     apply_filters [(''revenue'', [Num 10, Num 20]), (''region'', [Str ''East''])] sales_table"
    using t m by blast
  show ?thesis using m c2 e1 c1 e2 by blast
qed

section \<open>Properties of the indicators\<close>

lemma sum_num_values:
  "sum_list (num_values col df) = (\<Sum>r\<leftarrow>df. zero_if_not_number (r col))"
  by (induction df) (simp_all add: num_values_def zero_if_not_number_def split: cell.splits)

lemma or_zero_sql_sum:
  "or_zero (sql_sum col df) = (\<Sum>r\<leftarrow>df. zero_if_not_number (r col))"
proof (cases "num_values col df = []")
  case True
  then have "sum_list (num_values col df) = 0" by simp
  then have "(\<Sum>r\<leftarrow>df. zero_if_not_number (r col)) = 0" by (simp add: sum_num_values)
  then show ?thesis using True by (simp add: or_zero_def sql_sum_def)
next
  case False
  then show ?thesis by (simp add: or_zero_def sql_sum_def sum_num_values)
qed

lemma zero_if_not_number_coerce:
  "zero_if_not_number (fillna0 (to_numeric c)) = zero_if_not_number c"
  by (cases c) (simp_all add: zero_if_not_number_def fillna0_def to_numeric_def)

text \<open>
  C4. On an empty view the transaction count is 0 and, with a sales column selected, the
  total is 0. With a sales column selected the total of any view is the sum of that
  column with every missing or non-numeric cell counted as 0, also through the coercion
  of the sales column. Each of the four indicators is a function of its own role and the
  view: without its role it is absent, and changing the other roles does not change it.
\<close>

theorem kpis_independent_totals:
  "total_transactions (compute_kpis sel []) = 0 \<and>
   (truthy (sales_column sel) \<longrightarrow> total_sales (compute_kpis sel []) = Some 0) \<and>
   (truthy (sales_column sel) \<longrightarrow>
      total_sales (compute_kpis sel df) =
        Some (\<Sum>r\<leftarrow>df. zero_if_not_number (r (role_name (sales_column sel)))) \<and>
      total_sales (compute_kpis sel (coerce_sales (sales_column sel) df)) =
        Some (\<Sum>r\<leftarrow>df. zero_if_not_number (r (role_name (sales_column sel))))) \<and>
   (\<not> truthy (sales_column sel) \<longrightarrow> total_sales (compute_kpis sel df) = None) \<and>
   total_transactions (compute_kpis sel df) = length df \<and>
   unique_categories (compute_kpis sel df) =
     (if truthy (category_column sel)
      then Some (sql_count_distinct (role_name (category_column sel)) df) else None) \<and>
   date_range (compute_kpis sel df) =
     (if truthy (date_column sel)
      then Some (sql_min_max (role_name (date_column sel)) df) else None) \<and>
   total_sales (compute_kpis (sel\<lparr>category_column := c, date_column := d\<rparr>) df) =
     total_sales (compute_kpis sel df) \<and>
   total_transactions (compute_kpis (sel\<lparr>sales_column := s, category_column := c, date_column := d\<rparr>) df) =
     total_transactions (compute_kpis sel df) \<and>
   unique_categories (compute_kpis (sel\<lparr>sales_column := s, date_column := d\<rparr>) df) =
     unique_categories (compute_kpis sel df) \<and>
   date_range (compute_kpis (sel\<lparr>sales_column := s, category_column := c\<rparr>) df) =
     date_range (compute_kpis sel df)"
proof -
  have e: "truthy (sales_column sel) \<longrightarrow> total_sales (compute_kpis sel []) = Some 0"
    by (simp add: compute_kpis_def or_zero_sql_sum)
  have t: "truthy (sales_column sel) \<longrightarrow>
      total_sales (compute_kpis sel df) =
        Some (\<Sum>r\<leftarrow>df. zero_if_not_number (r (role_name (sales_column sel))))"
    by (simp add: compute_kpis_def or_zero_sql_sum)
  have co: "truthy (sales_column sel) \<longrightarrow>
      total_sales (compute_kpis sel (coerce_sales (sales_column sel) df)) =
        Some (\<Sum>r\<leftarrow>df. zero_if_not_number (r (role_name (sales_column sel))))"
    by (auto simp add: compute_kpis_def or_zero_sql_sum coerce_sales_def truthy_def role_name_def
          comp_def zero_if_not_number_coerce split: option.splits)
  have rest: "total_transactions (compute_kpis sel []) = 0"
    "\<not> truthy (sales_column sel) \<longrightarrow> total_sales (compute_kpis sel df) = None"
    "total_transactions (compute_kpis sel df) = length df"
    "unique_categories (compute_kpis sel df) =
     (if truthy (category_column sel)
      then Some (sql_count_distinct (role_name (category_column sel)) df) else None)"
    "date_range (compute_kpis sel df) =
     (if truthy (date_column sel)
      then Some (sql_min_max (role_name (date_column sel)) df) else None)"
    "total_sales (compute_kpis (sel\<lparr>category_column := c, date_column := d\<rparr>) df) =
     total_sales (compute_kpis sel df)"
    "total_transactions (compute_kpis (sel\<lparr>sales_column := s, category_column := c, date_column := d\<rparr>) df) =
     total_transactions (compute_kpis sel df)"
    "unique_categories (compute_kpis (sel\<lparr>sales_column := s, date_column := d\<rparr>) df) =
     unique_categories (compute_kpis sel df)"
    "date_range (compute_kpis (sel\<lparr>sales_column := s, category_column := c\<rparr>) df) =
     date_range (compute_kpis sel df)"
    by (simp_all add: compute_kpis_def sql_count_def)
  show ?thesis using e t co rest by blast
qed

theorem kpis_independent_totals_witness:
  "truthy (sales_column sales_sel) \<and>
   \<not> truthy (sales_column (sales_sel\<lparr>sales_column := None\<rparr>)) \<and>
   total_sales (compute_kpis sales_sel []) = Some 0 \<and>
   total_transactions (compute_kpis sales_sel []) = 0 \<and>
   total_sales (compute_kpis sales_sel sales_table) = Some 30 \<and>
   total_sales (compute_kpis (sales_sel\<lparr>sales_column := None\<rparr>) sales_table) = None \<and>
   total_transactions (compute_kpis (sales_sel\<lparr>sales_column := None\<rparr>) sales_table) = 3 \<and>
   unique_categories (compute_kpis (sales_sel\<lparr>sales_column := None\<rparr>) sales_table) = Some 2 \<and>
   date_range (compute_kpis (sales_sel\<lparr>sales_column := None\<rparr>) sales_table) =
     Some (Some 10, Some 172800)"
proof -
  have s: "truthy (sales_column sales_sel)" by (simp add: sales_sel_def truthy_def)
  have n: "\<not> truthy (sales_column (sales_sel\<lparr>sales_column := None\<rparr>))" by (simp add: truthy_def)
  have sm: "(\<Sum>r\<leftarrow>sales_table. zero_if_not_number (r (role_name (sales_column sales_sel)))) = 30"
    by (simp add: sales_table_def sales_sel_def role_name_def mk_row_def zero_if_not_number_def)
  have len: "length sales_table = 3" by (simp add: sales_table_def)
  have u: "sql_count_distinct ''region'' sales_table = 2"
    by (simp add: sql_count_distinct_def column_def sales_table_def mk_row_def)
  have d: "sql_min_max ''day'' sales_table = (Some 10, Some 172800)"
    by (simp add: sql_min_max_def ts_values_def sales_table_def mk_row_def)
  have r: "truthy (category_column (sales_sel\<lparr>sales_column := None\<rparr>))"
    "role_name (category_column (sales_sel\<lparr>sales_column := None\<rparr>)) = ''region''"
    "truthy (date_column (sales_sel\<lparr>sales_column := None\<rparr>))"
    "role_name (date_column (sales_sel\<lparr>sales_column := None\<rparr>)) = ''day''"
    by (simp_all add: sales_sel_def truthy_def role_name_def)
  note a = kpis_independent_totals [of sales_sel sales_table]
  note b = kpis_independent_totals [of "sales_sel\<lparr>sales_column := None\<rparr>" sales_table]
  have 1: "total_sales (compute_kpis sales_sel []) = Some 0" using a s by blast
  have 2: "total_transactions (compute_kpis sales_sel []) = 0" using a by blast
  have 3: "total_sales (compute_kpis sales_sel sales_table) = Some 30" using a s sm by simp
  have 4: "total_sales (compute_kpis (sales_sel\<lparr>sales_column := None\<rparr>) sales_table) = None"
    using b n by blast
  have 5: "total_transactions (compute_kpis (sales_sel\<lparr>sales_column := None\<rparr>) sales_table) = 3"
    using b len by simp
  have 6: "unique_categories (compute_kpis (sales_sel\<lparr>sales_column := None\<rparr>) sales_table) = Some 2"
    using b r u by simp
  have 7: "date_range (compute_kpis (sales_sel\<lparr>sales_column := None\<rparr>) sales_table) =
     Some (Some 10, Some 172800)"
    using b r d by simp
  show ?thesis using s n 1 2 3 4 5 6 7 by blast
qed

section \<open>Properties of the storyteller\<close>

text \<open>
  C6. With only the sales column selected the story has one step, the histogram of the
  sales column. The cursor is set to 0 when the session has none; \<open>Next\<close> at cursor 0
  moves it to 1, which is the end of the story; there \<open>Next\<close> changes nothing and
  \<open>Restart Story\<close> sets the cursor back to 0. For every selection, \<open>Next\<close> from a cursor
  \<open>k\<close> up to the number of steps gives \<open>min (k + 1)\<close> of that number, and
  \<open>Restart Story\<close> at the end gives 0.
\<close>

theorem measure_only_story:
  assumes "sales_column sel = Some s" and "s \<noteq> []"
    and "\<not> truthy (category_column sel)" and "\<not> truthy (date_column sel)"
  shows "story_steps sel =
      [(''What is the distribution of '' @ s @ ''?'', Histogram s (''Distribution of '' @ s))] \<and>
    story_step (init_story (ss\<lparr>story_step := None\<rparr>)) = Some 0 \<and>
    storyteller sel (Some Next) (ss\<lparr>story_step := Some 0\<rparr>) =
      (ss\<lparr>story_step := Some 1\<rparr>,
       Show_Step 1 (''What is the distribution of '' @ s @ ''?'') (Histogram s (''Distribution of '' @ s))) \<and>
    storyteller sel (Some Next) (ss\<lparr>story_step := Some 1\<rparr>) =
      (ss\<lparr>story_step := Some 1\<rparr>, End_Of_Story) \<and>
    storyteller sel (Some Restart_Story) (ss\<lparr>story_step := Some 1\<rparr>) =
      (ss\<lparr>story_step := Some 0\<rparr>, End_Of_Story) \<and>
    (\<forall>sel' k. k \<le> length (story_steps sel') \<longrightarrow>
       story_step (fst (storyteller sel' (Some Next) (ss\<lparr>story_step := Some k\<rparr>))) =
         Some (min (k + 1) (length (story_steps sel')))) \<and>
    (\<forall>sel' k. story_steps sel' \<noteq> [] \<longrightarrow> length (story_steps sel') \<le> k \<longrightarrow>
       storyteller sel' (Some Restart_Story) (ss\<lparr>story_step := Some k\<rparr>) =
         (ss\<lparr>story_step := Some 0\<rparr>, End_Of_Story))"
proof -
  have steps: "story_steps sel =
      [(''What is the distribution of '' @ s @ ''?'', Histogram s (''Distribution of '' @ s))]"
    using assms by (simp add: story_steps_def truthy_def role_name_def)
  have i: "story_step (init_story (ss\<lparr>story_step := None\<rparr>)) = Some 0"
    by (simp add: init_story_def)
  have n0: "storyteller sel (Some Next) (ss\<lparr>story_step := Some 0\<rparr>) =
      (ss\<lparr>story_step := Some 1\<rparr>,
       Show_Step 1 (''What is the distribution of '' @ s @ ''?'') (Histogram s (''Distribution of '' @ s)))"
    by (simp add: storyteller_def steps init_story_def current_step_def)
  have n1: "storyteller sel (Some Next) (ss\<lparr>story_step := Some 1\<rparr>) =
      (ss\<lparr>story_step := Some 1\<rparr>, End_Of_Story)"
    by (simp add: storyteller_def steps init_story_def current_step_def)
  have r1: "storyteller sel (Some Restart_Story) (ss\<lparr>story_step := Some 1\<rparr>) =
      (ss\<lparr>story_step := Some 0\<rparr>, End_Of_Story)"
    by (simp add: storyteller_def steps init_story_def current_step_def)
  have g1: "\<forall>sel' k. k \<le> length (story_steps sel') \<longrightarrow>
       story_step (fst (storyteller sel' (Some Next) (ss\<lparr>story_step := Some k\<rparr>))) =
         Some (min (k + 1) (length (story_steps sel')))"
    by (auto simp add: storyteller_def init_story_def current_step_def Let_def)
  have g2: "\<forall>sel' k. story_steps sel' \<noteq> [] \<longrightarrow> length (story_steps sel') \<le> k \<longrightarrow>
       storyteller sel' (Some Restart_Story) (ss\<lparr>story_step := Some k\<rparr>) =
         (ss\<lparr>story_step := Some 0\<rparr>, End_Of_Story)"
    by (auto simp add: storyteller_def init_story_def current_step_def Let_def)
  show ?thesis using steps i n0 n1 r1 g1 g2 by blast
qed

theorem measure_only_story_witness:
  "story_steps sel1 =
      [(''What is the distribution of price?'', Histogram ''price'' ''Distribution of price'')] \<and>
   storyteller sel1 None session0 =
      (session0\<lparr>story_step := Some 0\<rparr>,
       Show_Step 1 ''What is the distribution of price?'' (Histogram ''price'' ''Distribution of price'')) \<and>
   storyteller sel1 (Some Next) (session0\<lparr>story_step := Some 0\<rparr>) =
      (session0\<lparr>story_step := Some 1\<rparr>,
       Show_Step 1 ''What is the distribution of price?'' (Histogram ''price'' ''Distribution of price'')) \<and>
   storyteller sel1 (Some Next) (session0\<lparr>story_step := Some 1\<rparr>) =
      (session0\<lparr>story_step := Some 1\<rparr>, End_Of_Story) \<and>
   storyteller sel1 (Some Restart_Story) (session0\<lparr>story_step := Some 1\<rparr>) =
      (session0\<lparr>story_step := Some 0\<rparr>, End_Of_Story)"
proof -
  have a: "sales_column sel1 = Some ''price''" "''price'' \<noteq> []"
    "\<not> truthy (category_column sel1)" "\<not> truthy (date_column sel1)"
    by (simp_all add: sel1_def truthy_def)
  note t = measure_only_story [OF a, of session0]
  have s: "story_steps sel1 =
      [(''What is the distribution of price?'', Histogram ''price'' ''Distribution of price'')]"
    using t by simp
  have z: "storyteller sel1 None session0 =
      (session0\<lparr>story_step := Some 0\<rparr>,
       Show_Step 1 ''What is the distribution of price?'' (Histogram ''price'' ''Distribution of price''))"
    by (simp add: storyteller_def s init_story_def current_step_def session0_def)
  show ?thesis using t s z by simp
qed

section \<open>Properties of the What-If analysis\<close>

lemma scale_column_numeric:
  "numeric_in col df \<Longrightarrow>
   scale_column col f df =
     Inr (map (\<lambda>r. r(col := (case r col of Num x \<Rightarrow> Num (x * f) | c \<Rightarrow> c))) df)"
  by (induction df)
     (auto simp add: numeric_in_def column_def is_numeric_cell_def scale_cell_def split: cell.splits)

lemma what_if_numeric:
  assumes "filtered_df st < length (heap st)" and "numeric_in col (heap st ! filtered_df st)"
  shows "what_if sel col p st =
    (let view = heap st ! filtered_df st;
         scaled = map (\<lambda>r. r(col := (case r col of Num x \<Rightarrow> Num (x * (1 + p / 100)) | c \<Rightarrow> c))) view
     in (st\<lparr>heap := heap st @ [scaled]\<rparr>, WhatIf_Shown (take 5 view) (take 5 scaled) (compute_kpis sel scaled)))"
  using assms by (simp add: what_if_def Let_def scale_column_numeric nth_append)

lemma what_if_heap:
  "\<exists>new. fst (what_if sel col p st) = st\<lparr>heap := heap st @ [new]\<rparr>"
  by (auto simp add: what_if_def Let_def split: sum.splits)

text \<open>
  C9. Whatever the column, the percentage and the path taken (no numeric column, button
  not pressed, exception, success), the What-If tab leaves the variable \<open>filtered_df\<close>
  and the frame it points to, every frame that existed before, the connection \<open>con\<close>
  and the indicators \<open>kpi_data\<close> as they were: the only change to the state is at most
  one new frame, the copy. The session state, which is all that survives the run, is
  unchanged, so the transformed view is not kept.
\<close>

theorem what_if_leaves_baseline:
  assumes "filtered_df st < length (heap st)"
  shows "filtered_df (fst (what_if_tab sel col p clicked st)) = filtered_df st \<and>
    heap (fst (what_if_tab sel col p clicked st)) ! filtered_df st = heap st ! filtered_df st \<and>
    (\<forall>a<length (heap st). heap (fst (what_if_tab sel col p clicked st)) ! a = heap st ! a) \<and>
    con (fst (what_if_tab sel col p clicked st)) = con st \<and>
    kpi_data (fst (what_if_tab sel col p clicked st)) = kpi_data st \<and>
    session (fst (what_if_tab sel col p clicked st)) = session st \<and>
    (fst (what_if_tab sel col p clicked st) = st \<or>
     (\<exists>new. fst (what_if_tab sel col p clicked st) = st\<lparr>heap := heap st @ [new]\<rparr>))"
proof -
  have c: "fst (what_if_tab sel col p clicked st) = st \<or>
     (\<exists>new. fst (what_if_tab sel col p clicked st) = st\<lparr>heap := heap st @ [new]\<rparr>)"
    using what_if_heap [of sel col p st] by (simp add: what_if_tab_def)
  then show ?thesis using assms by (auto simp add: nth_append)
qed

lemma classified_disjoint:
  assumes "classified all_columns dtypes sel" and "col \<in> set (numeric_columns sel)"
    and "category_column sel = Some c"
  shows "c \<noteq> col"
  using assms by (auto simp add: classified_def)

lemma column_update_other:
  "c \<noteq> col \<Longrightarrow> column c (map (\<lambda>r. r(col := g r)) df) = column c df"
  by (simp add: column_def)

text \<open>
  C10. For a column chosen among the numeric columns, which holds numbers and missing
  cells, and any percentage, the What-If analysis completes, its modified frame has as
  many rows as the view, and the recomputed transaction count and number of unique
  categories equal the ones of the view: the category column is a categorical column,
  hence not the scaled one.
\<close>

theorem what_if_keeps_counts:
  assumes "classified all_columns dtypes sel" and "col \<in> set (numeric_columns sel)"
    and "filtered_df st < length (heap st)" and "numeric_in col (heap st ! filtered_df st)"
  shows "\<exists>st' original modified updated.
      what_if sel col p st = (st', WhatIf_Shown original modified updated) \<and>
      length (heap st' ! length (heap st)) = length (heap st ! filtered_df st) \<and>
      total_transactions updated = total_transactions (compute_kpis sel (heap st ! filtered_df st)) \<and>
      unique_categories updated = unique_categories (compute_kpis sel (heap st ! filtered_df st))"
proof -
  have u: "sql_count_distinct c (map (\<lambda>r. r(col := g r)) df) = sql_count_distinct c df"
    if "category_column sel = Some c" for c g df
    using classified_disjoint [OF assms(1,2) that]
    by (simp add: sql_count_distinct_def column_update_other)
  have "truthy (category_column sel) \<Longrightarrow>
      sql_count_distinct (role_name (category_column sel)) (map (\<lambda>r. r(col := g r)) df) =
      sql_count_distinct (role_name (category_column sel)) df" for g df
    using u by (cases "category_column sel") (simp_all add: truthy_def role_name_def)
  then show ?thesis
    using what_if_numeric [OF assms(3,4), of sel p]
    by (simp add: Let_def compute_kpis_def sql_count_def)
qed


lemma sales_state_facts:
  "filtered_df sales_state < length (heap sales_state)"
  "heap sales_state ! filtered_df sales_state = sales_view"
  "kpi_data sales_state = compute_kpis sales_sel sales_view"
  "session sales_state = session0"
  by (simp_all add: sales_state_def state_at_tabs_def)

lemma sales_view_rows:
  "sales_view = [mk_row 10 ''East'' (Num 10) (Num 1),
                 mk_row 86400 ''West'' (Num 20) Missing,
                 mk_row 172800 ''East'' (Num 0) (Num 3)]"
  by (simp add: sales_view_def filtered_view_def apply_date_range_def coerce_sales_def
      sales_sel_def sales_table_def mk_row_def to_numeric_def fillna0_def fun_eq_iff)

lemma sales_view_numeric: "numeric_in ''revenue'' sales_view" "numeric_in ''qty'' sales_view"
  by (simp_all add: sales_view_rows numeric_in_def column_def mk_row_def is_numeric_cell_def)

theorem what_if_leaves_baseline_witness:
  "filtered_df sales_state < length (heap sales_state) \<and>
   filtered_df (fst (what_if_tab sales_sel ''revenue'' 50 True sales_state)) = 0 \<and>
   heap (fst (what_if_tab sales_sel ''revenue'' 50 True sales_state)) ! 0 = sales_view \<and>
   kpi_data (fst (what_if_tab sales_sel ''revenue'' 50 True sales_state)) =
     compute_kpis sales_sel sales_view \<and>
   session (fst (what_if_tab sales_sel ''revenue'' 50 True sales_state)) = session0"
proof -
  note t = what_if_leaves_baseline [OF sales_state_facts(1), of sales_sel "''revenue''" 50 True]
  have z: "filtered_df sales_state = 0" by (simp add: sales_state_def state_at_tabs_def)
  show ?thesis using t sales_state_facts z by simp
qed

lemma sales_classified:
  "classified [''day'', ''region'', ''revenue'', ''qty''] sales_dtypes sales_sel"
  by (simp add: classified_def sales_sel_def sales_dtypes_def is_number_def)

lemma sales_view_counts:
  "total_transactions (compute_kpis sales_sel sales_view) = 3"
  "unique_categories (compute_kpis sales_sel sales_view) = Some 2"
  by (simp_all add: compute_kpis_def sales_view_rows sql_count_def sql_count_distinct_def
      column_def mk_row_def sales_sel_def truthy_def role_name_def)

theorem what_if_keeps_counts_witness:
  "classified [''day'', ''region'', ''revenue'', ''qty''] sales_dtypes sales_sel \<and>
   ''qty'' \<in> set (numeric_columns sales_sel) \<and>
   numeric_in ''qty'' (heap sales_state ! filtered_df sales_state) \<and>
   (\<exists>st' original modified updated.
      what_if sales_sel ''qty'' 50 sales_state = (st', WhatIf_Shown original modified updated) \<and>
      total_transactions updated = 3 \<and> unique_categories updated = Some 2)"
proof -
  have q: "''qty'' \<in> set (numeric_columns sales_sel)" by (simp add: sales_sel_def)
  have n: "numeric_in ''qty'' (heap sales_state ! filtered_df sales_state)"
    using sales_view_numeric by (simp add: sales_state_facts)
  note t = what_if_keeps_counts [OF sales_classified q sales_state_facts(1) n, of 50]
  have "\<exists>st' original modified updated.
      what_if sales_sel ''qty'' 50 sales_state = (st', WhatIf_Shown original modified updated) \<and>
      total_transactions updated = 3 \<and> unique_categories updated = Some 2"
    using t by (auto simp add: sales_state_facts sales_view_counts)
  then show ?thesis using sales_classified q n by blast
qed

lemma filtered_view_subset: "set (filtered_view dr fs df) \<subseteq> set df"
proof -
  have "set (apply_filters fs d) \<subseteq> set d" for d
    by (induction fs arbitrary: d) (auto, fastforce)
  moreover have "set (apply_date_range dr df) \<subseteq> set df"
    by (auto simp add: apply_date_range_def split: option.splits)
  ultimately show ?thesis unfolding filtered_view_def by blast
qed

lemma coerced_not_missing:
  assumes "col \<noteq> []"
  shows "Missing \<notin> set (column col (filtered_view dr fs (coerce_sales (Some col) df)))"
proof -
  have "\<forall>r\<in>set (coerce_sales (Some col) df). r col \<noteq> Missing"
    using assms by (auto simp add: coerce_sales_def fillna0_def to_numeric_def split: cell.splits)
  then have "\<forall>r\<in>set (filtered_view dr fs (coerce_sales (Some col) df)). r col \<noteq> Missing"
    using filtered_view_subset by blast
  then show ?thesis by (auto simp add: column_def)
qed

lemma zeroed_total:
  "(\<Sum>r\<leftarrow>map (\<lambda>r. r(col := (case r col of Num x \<Rightarrow> Num 0 | c \<Rightarrow> c))) df.
      zero_if_not_number (r col)) = 0"
  by (induction df) (simp_all add: zero_if_not_number_def split: cell.splits)

text \<open>
  C7, amended. At 0 percent the modified frame equals the view and the recomputed
  indicators equal the baseline ones. At \<open>-100\<close> percent every number of the transformed
  column becomes 0 and every missing cell stays missing; the column is all zero when it
  has no missing cell, as is the case for the sales column, whose missing cells the
  coercion has already replaced by 0, and when the transformed column is the sales
  column the recomputed total is 0.
\<close>

theorem what_if_zero_and_minus_hundred:
  assumes "filtered_df st < length (heap st)" and "numeric_in col (heap st ! filtered_df st)"
    and "kpi_data st = compute_kpis sel (heap st ! filtered_df st)"
  shows "what_if sel col 0 st =
      (st\<lparr>heap := heap st @ [heap st ! filtered_df st]\<rparr>,
       WhatIf_Shown (take 5 (heap st ! filtered_df st)) (take 5 (heap st ! filtered_df st))
         (kpi_data st)) \<and>
    (\<exists>st' original modified updated.
       what_if sel col (- 100) st = (st', WhatIf_Shown original modified updated) \<and>
       column col (heap st' ! length (heap st)) =
         map (\<lambda>c. case c of Num x \<Rightarrow> Num 0 | c' \<Rightarrow> c') (column col (heap st ! filtered_df st)) \<and>
       (Missing \<notin> set (column col (heap st ! filtered_df st)) \<longrightarrow>
          all_zero (column col (heap st' ! length (heap st)))) \<and>
       (sales_column sel = Some col \<and> col \<noteq> [] \<longrightarrow> total_sales updated = Some 0)) \<and>
    (col \<noteq> [] \<longrightarrow>
       Missing \<notin> set (column col (filtered_view dr fs (coerce_sales (Some col) df))))"
proof -
  let ?view = "heap st ! filtered_df st"
  have id: "map (\<lambda>r. r(col := (case r col of Num x \<Rightarrow> Num (x * (1 + 0 / 100)) | c \<Rightarrow> c))) ?view = ?view"
    by (rule map_idI) (auto simp add: fun_eq_iff split: cell.splits)
  have zero: "what_if sel col 0 st =
      (st\<lparr>heap := heap st @ [?view]\<rparr>,
       WhatIf_Shown (take 5 ?view) (take 5 ?view) (kpi_data st))"
    using what_if_numeric [OF assms(1,2), of sel 0] id assms(3) by (simp add: Let_def)
  let ?scaled = "map (\<lambda>r. r(col := (case r col of Num x \<Rightarrow> Num 0 | c \<Rightarrow> c))) ?view"
  have m: "what_if sel col (- 100) st =
      (st\<lparr>heap := heap st @ [?scaled]\<rparr>,
       WhatIf_Shown (take 5 ?view) (take 5 ?scaled) (compute_kpis sel ?scaled))"
  proof -
    have f: "(\<lambda>r. r(col := (case r col of Num x \<Rightarrow> Num (x * (1 + - 100 / 100)) | c \<Rightarrow> c))) =
             (\<lambda>r::row. r(col := (case r col of Num x \<Rightarrow> Num 0 | c \<Rightarrow> c)))"
      by (auto simp add: fun_eq_iff split: cell.splits)
    show ?thesis
      using what_if_numeric [OF assms(1,2), of sel "- 100"] unfolding f by (simp add: Let_def)
  qed
  have c1: "column col ?scaled = map (\<lambda>c. case c of Num x \<Rightarrow> Num 0 | c' \<Rightarrow> c') (column col ?view)"
    by (simp add: column_def comp_def)
  have c2: "Missing \<notin> set (column col ?view) \<longrightarrow> all_zero (column col ?scaled)"
  proof
    assume nm: "Missing \<notin> set (column col ?view)"
    have "r col \<noteq> Missing" if "r \<in> set ?view" for r
    proof
      assume "r col = Missing"
      then have "Missing \<in> (\<lambda>r. r col) ` set ?view" using that by (metis imageI)
      then show False using nm by (simp add: column_def)
    qed
    moreover have "is_numeric_cell (r col)" if "r \<in> set ?view" for r
      using assms(2) that by (simp add: numeric_in_def column_def list_all_iff)
    ultimately have "\<forall>r\<in>set ?view. is_numeric_cell (r col) \<and> r col \<noteq> Missing"
      by blast
    then show "all_zero (column col ?scaled)"
      by (auto simp add: all_zero_def column_def list_all_iff is_numeric_cell_def split: cell.splits)
  qed
  have c3: "sales_column sel = Some col \<and> col \<noteq> [] \<longrightarrow>
      total_sales (compute_kpis sel ?scaled) = Some 0"
    using zeroed_total [of col ?view]
    by (simp add: compute_kpis_def truthy_def role_name_def or_zero_sql_sum)
  have ex: "\<exists>st' original modified updated.
       what_if sel col (- 100) st = (st', WhatIf_Shown original modified updated) \<and>
       column col (heap st' ! length (heap st)) =
         map (\<lambda>c. case c of Num x \<Rightarrow> Num 0 | c' \<Rightarrow> c') (column col ?view) \<and>
       (Missing \<notin> set (column col ?view) \<longrightarrow>
          all_zero (column col (heap st' ! length (heap st)))) \<and>
       (sales_column sel = Some col \<and> col \<noteq> [] \<longrightarrow> total_sales updated = Some 0)"
    using m c1 c2 c3 by (simp add: nth_append)
  show ?thesis using zero ex coerced_not_missing by blast
qed

text \<open>
  C7, as the claim states it, fails for a numeric column with a missing value that is
  not the sales column: at \<open>-100\<close> percent the missing cell stays missing, so the
  transformed column is not all zero.
\<close>

theorem minus_hundred_not_all_zero_counterexample:
  "numeric_in ''qty'' (heap sales_state ! filtered_df sales_state) \<and>
   column ''qty'' (heap (fst (what_if sales_sel ''qty'' (- 100) sales_state)) ! 1) =
     [Num 0, Missing, Num 0] \<and>
   \<not> all_zero (column ''qty'' (heap (fst (what_if sales_sel ''qty'' (- 100) sales_state)) ! 1))"
proof -
  have n: "numeric_in ''qty'' (heap sales_state ! filtered_df sales_state)"
    using sales_view_numeric by (simp add: sales_state_facts)
  have h: "length (heap sales_state) = 1" by (simp add: sales_state_def state_at_tabs_def)
  have c: "column ''qty'' (heap (fst (what_if sales_sel ''qty'' (- 100) sales_state)) ! 1) =
     [Num 0, Missing, Num 0]"
    using what_if_numeric [OF sales_state_facts(1) n, of sales_sel "- 100"] h
    by (simp add: Let_def sales_state_facts nth_append sales_view_rows column_def mk_row_def)
  show ?thesis using n c by (simp add: all_zero_def)
qed

theorem what_if_zero_and_minus_hundred_witness:
  "numeric_in ''revenue'' (heap sales_state ! filtered_df sales_state) \<and>
   kpi_data sales_state = compute_kpis sales_sel (heap sales_state ! filtered_df sales_state) \<and>
   what_if sales_sel ''revenue'' 0 sales_state =
      (sales_state\<lparr>heap := [sales_view, sales_view]\<rparr>,
       WhatIf_Shown sales_view sales_view (kpi_data sales_state)) \<and>
   total_sales (kpi_data sales_state) = Some 30 \<and>
   (\<exists>st' original modified updated.
       what_if sales_sel ''revenue'' (- 100) sales_state = (st', WhatIf_Shown original modified updated) \<and>
       column ''revenue'' (heap st' ! 1) = [Num 0, Num 0, Num 0] \<and>
       total_sales updated = Some 0)"
proof -
  have n: "numeric_in ''revenue'' (heap sales_state ! filtered_df sales_state)"
    using sales_view_numeric by (simp add: sales_state_facts)
  have k: "kpi_data sales_state = compute_kpis sales_sel (heap sales_state ! filtered_df sales_state)"
    by (simp add: sales_state_facts)
  have h: "heap sales_state = [sales_view]" by (simp add: sales_state_def state_at_tabs_def)
  have s: "sales_column sales_sel = Some ''revenue'' \<and> ''revenue'' \<noteq> []"
    by (simp add: sales_sel_def)
  have l: "take 5 sales_view = sales_view" by (simp add: sales_view_rows)
  have col: "column ''revenue'' sales_view = [Num 10, Num 20, Num 0]"
    by (simp add: sales_view_rows column_def mk_row_def)
  have tot: "total_sales (kpi_data sales_state) = Some 30"
    by (simp add: sales_state_facts compute_kpis_def sales_sel_def truthy_def role_name_def
        or_zero_sql_sum sales_view_rows mk_row_def zero_if_not_number_def)
  have z0: "filtered_df sales_state = 0" by (simp add: sales_state_def state_at_tabs_def)
  note t = what_if_zero_and_minus_hundred [OF sales_state_facts(1) n k,
      where dr = None and fs = "[]" and df = "[]"]
  have z: "what_if sales_sel ''revenue'' 0 sales_state =
      (sales_state\<lparr>heap := [sales_view, sales_view]\<rparr>,
       WhatIf_Shown sales_view sales_view (kpi_data sales_state))"
    using t by (simp add: h z0 l)
  have m: "\<exists>st' original modified updated.
       what_if sales_sel ''revenue'' (- 100) sales_state = (st', WhatIf_Shown original modified updated) \<and>
       column ''revenue'' (heap st' ! 1) = [Num 0, Num 0, Num 0] \<and>
       total_sales updated = Some 0"
    using t s by (auto simp add: h z0 col)
  show ?thesis using n k z tot m by blast
qed

section \<open>Properties of the trivia generator\<close>

lemma shuffle_from_mset:
  "i < length xs \<Longrightarrow> mset (shuffle_from draw i xs) = mset xs"
proof (induction i arbitrary: xs)
  case 0
  show ?case by simp
next
  case (Suc i)
  let ?j = "draw (Suc i) mod (Suc i + 1)"
  have "?j < Suc i + 1" by (rule mod_less_divisor) simp
  then have j: "?j < length xs" using Suc.prems by linarith
  have "mset (xs[Suc i := xs ! ?j, ?j := xs ! Suc i]) = mset xs"
    using j Suc.prems by (rule mset_swap)
  moreover have "i < length (xs[Suc i := xs ! ?j, ?j := xs ! Suc i])"
    using Suc.prems by simp
  ultimately show ?case using Suc.IH [of "xs[Suc i := xs ! ?j, ?j := xs ! Suc i]"]
    by (simp add: Let_def)
qed

lemma shuffle_mset: "mset (shuffle draw xs) = mset xs"
  by (cases xs) (simp_all add: shuffle_def shuffle_from_mset)

lemma shuffle_set: "set (shuffle draw xs) = set xs"
  using shuffle_mset [of draw xs] by (metis set_mset_mset)

lemma shuffle_length: "length (shuffle draw xs) = length xs"
  using shuffle_mset [of draw xs] by (metis size_mset)

lemma has_most_frequent:
  "ds \<noteq> [] \<Longrightarrow> \<exists>v\<in>set ds. \<forall>w\<in>set ds. (f w :: nat) \<le> f v"
proof (induction ds)
  case Nil
  then show ?case by simp
next
  case (Cons d ds)
  show ?case
  proof (cases "ds = []")
    case True
    then show ?thesis by simp
  next
    case False
    then obtain v where v: "v \<in> set ds" "\<forall>w\<in>set ds. f w \<le> f v" using Cons.IH by blast
    show ?thesis
    proof (cases "f v \<le> f d")
      case True
      then show ?thesis using v by (auto intro: order_trans)
    next
      case False
      then show ?thesis using v by (auto intro: bexI [of _ v])
    qed
  qed
qed

lemma series_mode_set:
  "set (series_mode vals) =
     {v \<in> set (present vals). \<forall>w. count_list (present vals) w \<le> count_list (present vals) v}"
proof -
  have "(\<forall>w\<in>set (present vals). count_list (present vals) w \<le> count_list (present vals) v) =
        (\<forall>w. count_list (present vals) w \<le> count_list (present vals) v)" for v
    by (metis count_notin le0)
  then show ?thesis by (auto simp add: series_mode_def Let_def list_all_iff)
qed

lemma series_mode_nonempty:
  assumes "present vals \<noteq> []"
  shows "series_mode vals \<noteq> []"
proof -
  have "remdups (present vals) \<noteq> []" using assms by simp
  then obtain v where "v \<in> set (remdups (present vals))"
    "\<forall>w\<in>set (remdups (present vals)). count_list (present vals) w \<le> count_list (present vals) v"
    using has_most_frequent [of "remdups (present vals)" "count_list (present vals)"] by blast
  then have "v \<in> set (series_mode vals)"
    by (simp add: series_mode_def Let_def list_all_iff)
  then show ?thesis by auto
qed

lemma top_value_mode:
  assumes "present vals \<noteq> []"
  shows "\<exists>v. top_value vals = Inr v \<and> v = hd (series_mode vals) \<and> v \<in> set (present vals) \<and>
           (\<forall>w. count_list (present vals) w \<le> count_list (present vals) v)"
proof -
  have ne: "vals \<noteq> []" using assms by (auto simp add: present_def)
  obtain v rest where m: "series_mode vals = v # rest"
    using series_mode_nonempty [OF assms] by (cases "series_mode vals") auto
  then have "v \<in> set (series_mode vals)" by simp
  then have "v \<in> set (present vals) \<and>
      (\<forall>w. count_list (present vals) w \<le> count_list (present vals) v)"
    by (simp add: series_mode_set)
  then show ?thesis using m ne by (simp add: top_value_def)
qed

lemma value_counts_set: "set (value_counts vals) = set (present vals)"
  by (simp add: value_counts_def Let_def)

lemma value_counts_length: "length (value_counts vals) = card (set (present vals))"
  by (simp add: value_counts_def Let_def length_remdups_card_conv)

lemma value_counts_sorted:
  "sorted (map (\<lambda>v. - int (count_list (present vals) v)) (value_counts vals))"
  by (simp add: value_counts_def Let_def)

lemma sorted_map_last:
  assumes "sorted (map f ys)" and "v \<in> set ys"
  shows "(f v :: int) \<le> f (last ys)"
proof -
  obtain i where i: "i < length ys" "ys ! i = v" using assms(2) by (auto simp add: in_set_conv_nth)
  then have ne: "ys \<noteq> []" by auto
  have "map f ys ! i \<le> map f ys ! (length ys - 1)"
    using assms(1) i by (intro sorted_nth_mono) auto
  then show ?thesis using i ne by (simp add: last_conv_nth)
qed

lemma top4_last_least:
  assumes "v \<in> set (take 4 (value_counts vals))"
  shows "count_list (present vals) (last (take 4 (value_counts vals))) \<le> count_list (present vals) v"
proof -
  have "sorted (map (\<lambda>v. - int (count_list (present vals) v)) (take 4 (value_counts vals)))"
    using value_counts_sorted [of vals] by (simp add: take_map [symmetric] sorted_wrt_take)
  then have "- int (count_list (present vals) v) \<le>
             - int (count_list (present vals) (last (take 4 (value_counts vals))))"
    using assms by (rule sorted_map_last)
  then show ?thesis by simp
qed


lemma question_type_choice:
  "choice k [''average'', ''value_counts''] = (if k mod 2 = 0 then ''average'' else ''value_counts'')"
proof -
  have e: "k mod 2 = k mod Suc (Suc 0)" by (simp add: numeral_2_eq_2)
  have "k mod Suc (Suc 0) = 0 \<or> k mod Suc (Suc 0) = Suc 0" by arith
  then show ?thesis unfolding e by (auto simp add: choice_def)
qed

lemma set_last_mset:
  "xs \<noteq> [] \<Longrightarrow> mset (xs[length xs - 1 := t]) = mset (butlast xs) + {#t#}"
  by (cases xs rule: rev_cases) simp_all

lemma options_at_most_four:
  "generate_trivia_question fmt rnd df num_cols cat_cols = Inr (Some q) \<Longrightarrow> length (options q) \<le> 4"
  by (auto simp add: generate_trivia_question_def Let_def shuffle_length set_last_def
      split: if_splits sum.splits)

text \<open>
  C5, amended. Every generated question has at most four options. When the draw picks
  the average and there is a numeric column, a question is generated with exactly four
  options, the correct answer among them. When the draw picks the most frequent category
  and the drawn categorical column has a value that is not missing (and none that is the
  string \<open>N/A\<close>, which the CSV reader takes for a missing value), a question is generated
  whose options are as many as the distinct values of the column, up to four; the correct
  answer is the first of the modes, no value occurs more often, and it is among the
  options. When it is not among the four most frequent values it takes the place of the
  last of them, which occurs no more often than the other three.
\<close>

theorem trivia_options:
  assumes "col = choice (column_draw rnd) cat_cols" and "vals = column col df"
  shows
   "(num_cols \<noteq> [] \<and> type_draw rnd mod 2 = 0 \<longrightarrow>
      (\<exists>q. generate_trivia_question fmt rnd df num_cols cat_cols = Inr (Some q) \<and>
           length (options q) = 4 \<and> correct_answer q \<in> set (options q))) \<and>
    (cat_cols \<noteq> [] \<and> type_draw rnd mod 2 = 1 \<and> present vals \<noteq> [] \<and> Str ''N/A'' \<notin> set vals \<longrightarrow>
      (\<exists>q. generate_trivia_question fmt rnd df num_cols cat_cols = Inr (Some q) \<and>
           length (options q) = min 4 (card (set (present vals))) \<and>
           correct_answer q = hd (series_mode vals) \<and>
           (\<forall>w. count_list (present vals) w \<le> count_list (present vals) (correct_answer q)) \<and>
           correct_answer q \<in> set (options q) \<and>
           (correct_answer q \<notin> set (take 4 (value_counts vals)) \<longrightarrow>
              mset (options q) =
                mset (butlast (take 4 (value_counts vals))) + {#correct_answer q#} \<and>
              (\<forall>v\<in>set (take 4 (value_counts vals)).
                 count_list (present vals) (last (take 4 (value_counts vals)))
                   \<le> count_list (present vals) v)))) \<and>
    (\<forall>q. generate_trivia_question fmt rnd df num_cols cat_cols = Inr (Some q) \<longrightarrow>
       length (options q) \<le> 4)"
proof -
  have avg: "\<exists>q. generate_trivia_question fmt rnd df num_cols cat_cols = Inr (Some q) \<and>
           length (options q) = 4 \<and> correct_answer q \<in> set (options q)"
    if "num_cols \<noteq> []" "type_draw rnd mod 2 = 0"
    using that
    by (simp add: generate_trivia_question_def Let_def question_type_choice shuffle_length shuffle_set)
  have vc: "\<exists>q. generate_trivia_question fmt rnd df num_cols cat_cols = Inr (Some q) \<and>
           length (options q) = min 4 (card (set (present vals))) \<and>
           correct_answer q = hd (series_mode vals) \<and>
           (\<forall>w. count_list (present vals) w \<le> count_list (present vals) (correct_answer q)) \<and>
           correct_answer q \<in> set (options q) \<and>
           (correct_answer q \<notin> set (take 4 (value_counts vals)) \<longrightarrow>
              mset (options q) =
                mset (butlast (take 4 (value_counts vals))) + {#correct_answer q#} \<and>
              (\<forall>v\<in>set (take 4 (value_counts vals)).
                 count_list (present vals) (last (take 4 (value_counts vals)))
                   \<le> count_list (present vals) v))"
    if h: "cat_cols \<noteq> []" "type_draw rnd mod 2 = 1" "present vals \<noteq> []" "Str ''N/A'' \<notin> set vals"
  proof -
    let ?top4 = "take 4 (value_counts vals)"
    obtain v where v: "top_value vals = Inr v" "v = hd (series_mode vals)" "v \<in> set (present vals)"
      "\<forall>w. count_list (present vals) w \<le> count_list (present vals) v"
      using top_value_mode [OF h(3)] by blast
    have vna: "v \<noteq> Str ''N/A''" using v(3) h(4) by (auto simp add: present_def)
    have "value_counts vals \<noteq> []" using h(3) value_counts_set [of vals] by auto
    then have ne: "?top4 \<noteq> []" by simp
    have len: "length ?top4 = min 4 (card (set (present vals)))"
      by (simp add: value_counts_length min.commute)
    let ?opts = "if v \<in> set ?top4 then ?top4 else ?top4[length ?top4 - 1 := v]"
    let ?q = "\<lparr>question = ''Which category appears most frequently in '' @ quoted col @ ''?'',
               correct_answer = v, options = shuffle (shuffle_draw rnd) ?opts\<rparr>"
    have g: "generate_trivia_question fmt rnd df num_cols cat_cols = Inr (Some ?q)"
      using h(1,2) v(1) vna ne assms
      by (simp add: generate_trivia_question_def Let_def question_type_choice set_last_def)
    have l: "length (options ?q) = min 4 (card (set (present vals)))"
      using len by (simp add: shuffle_length)
    have "length ?top4 - 1 < length ?top4" using ne by (cases ?top4) simp_all
    then have "v \<in> set (?top4[length ?top4 - 1 := v])" by (rule set_update_memI)
    then have m: "correct_answer ?q \<in> set (options ?q)"
      by (cases "v \<in> set ?top4") (simp_all add: shuffle_set)
    have r: "mset (options ?q) = mset (butlast ?top4) + {#correct_answer ?q#}"
      if "correct_answer ?q \<notin> set ?top4"
      using that set_last_mset [OF ne, of v] by (simp add: shuffle_mset)
    have lf: "\<forall>w\<in>set ?top4. count_list (present vals) (last ?top4) \<le> count_list (present vals) w"
      using top4_last_least by blast
    have c: "correct_answer ?q = hd (series_mode vals)" using v(2) by simp
    have f: "\<forall>w. count_list (present vals) w \<le> count_list (present vals) (correct_answer ?q)"
      using v(4) by simp
    show ?thesis using g l c f m r lf by blast
  qed
  show ?thesis
    apply (intro conjI impI allI)
      apply (elim conjE, rule avg, assumption+)
     apply (elim conjE, rule vc, assumption+)
    apply (erule options_at_most_four)
    done
qed


text \<open>
  C5, as the claim states it, fails: a categorical column with two distinct values
  gives a question with two options, and on an empty view the answer is the string
  \<open>N/A\<close> with no option at all.
\<close>

theorem trivia_fewer_than_four_options_counterexample:
  "generate_trivia_question two_decimals draws1 sales_table [''revenue'', ''qty''] [''region''] =
     Inr (Some \<lparr>question = ''Which category appears most frequently in '' @ quoted ''region'' @ ''?'',
                 correct_answer = Str ''East'', options = [Str ''West'', Str ''East'']\<rparr>) \<and>
   length [Str ''West'', Str ''East''] \<noteq> (4::nat) \<and>
   generate_trivia_question two_decimals draws1 [] [''revenue'', ''qty''] [''region''] =
     Inr (Some \<lparr>question = ''Which category appears most frequently in '' @ quoted ''region'' @ ''?'',
                 correct_answer = Str ''N/A'', options = []\<rparr>) \<and>
   Str ''N/A'' \<notin> set ([] :: cell list)"
  by (simp add: generate_trivia_question_def draws1_def choice_def top_value_def set_last_def
      shuffle_def Let_def series_mode_def value_counts_def sales_table_def mk_row_def column_def
      present_def cell_key_def)

lemma letters_column:
  "column ''letter'' letters_table = [Str ''e'', Str ''d'', Str ''c'', Str ''b'', Str ''a'']"
  by (simp add: letters_table_def column_def)

lemma letters_mode:
  "series_mode [Str ''e'', Str ''d'', Str ''c'', Str ''b'', Str ''a''] =
     [Str ''a'', Str ''b'', Str ''c'', Str ''d'', Str ''e'']"
  by (simp add: series_mode_def present_def cell_key_def Let_def)

lemma letters_counts:
  "value_counts [Str ''e'', Str ''d'', Str ''c'', Str ''b'', Str ''a''] =
     [Str ''e'', Str ''d'', Str ''c'', Str ''b'', Str ''a'']"
  by (simp add: value_counts_def present_def Let_def)

theorem trivia_options_witness:
  "type_draw draws0 mod 2 = 0 \<and>
   (\<exists>q. generate_trivia_question two_decimals draws0 sales_table [''revenue''] [''region''] = Inr (Some q) \<and>
        options q = map Str [''other'', ''10.00'', ''other'', ''other''] \<and>
        length (options q) = 4 \<and> correct_answer q \<in> set (options q)) \<and>
   type_draw draws1 mod 2 = 1 \<and>
   present (column ''letter'' letters_table) \<noteq> [] \<and>
   Str ''N/A'' \<notin> set (column ''letter'' letters_table) \<and>
   Str ''a'' \<notin> set (take 4 (value_counts (column ''letter'' letters_table))) \<and>
   (\<exists>q. generate_trivia_question two_decimals draws1 letters_table [] [''letter''] = Inr (Some q) \<and>
        correct_answer q = Str ''a'' \<and>
        options q = [Str ''d'', Str ''c'', Str ''a'', Str ''e''] \<and>
        correct_answer q \<in> set (options q) \<and>
        mset (options q) = mset [Str ''e'', Str ''d'', Str ''c''] + {#Str ''a''#})"
proof -
  have d0: "type_draw draws0 mod 2 = 0" "[''revenue''] \<noteq> []" by (simp_all add: draws0_def)
  have d1: "type_draw draws1 mod 2 = 1" "[''letter''] \<noteq> []" by (simp_all add: draws1_def)
  have c1: "choice (column_draw draws1) [''letter''] = ''letter''"
    by (simp add: choice_def draws1_def)
  have p: "present (column ''letter'' letters_table) \<noteq> []"
    by (simp add: letters_column present_def)
  have na: "Str ''N/A'' \<notin> set (column ''letter'' letters_table)"
    by (simp add: letters_column)
  have out: "Str ''a'' \<notin> set (take 4 (value_counts (column ''letter'' letters_table)))"
    by (simp add: letters_column letters_counts)
  have e0: "generate_trivia_question two_decimals draws0 sales_table [''revenue''] [''region''] =
     Inr (Some \<lparr>question = ''What is the average value of '' @ quoted ''revenue'' @ ''?'',
       correct_answer = Str ''other'', options = map Str [''other'', ''10.00'', ''other'', ''other'']\<rparr>)"
    by (simp add: generate_trivia_question_def draws0_def choice_def shuffle_def Let_def
        sales_table_def mk_row_def num_values_def series_mean_def series_median_def
        series_min_def series_max_def two_decimals_def)
  have e1: "generate_trivia_question two_decimals draws1 letters_table [] [''letter''] =
     Inr (Some \<lparr>question = ''Which category appears most frequently in '' @ quoted ''letter'' @ ''?'',
       correct_answer = Str ''a'', options = [Str ''d'', Str ''c'', Str ''a'', Str ''e'']\<rparr>)"
    by (simp add: generate_trivia_question_def draws1_def choice_def letters_column letters_mode
        letters_counts top_value_def set_last_def shuffle_def Let_def)
  note a = trivia_options [OF refl refl, where rnd = draws0 and num_cols = "[''revenue'']"
      and cat_cols = "[''region'']" and df = sales_table and fmt = two_decimals]
  note b = trivia_options [OF refl refl, where rnd = draws1 and num_cols = "[]"
      and cat_cols = "[''letter'']" and df = letters_table and fmt = two_decimals]
  have w0: "\<exists>q. generate_trivia_question two_decimals draws0 sales_table [''revenue''] [''region''] = Inr (Some q) \<and>
        options q = map Str [''other'', ''10.00'', ''other'', ''other''] \<and>
        length (options q) = 4 \<and> correct_answer q \<in> set (options q)"
    using a d0 e0 by auto
  have w1: "\<exists>q. generate_trivia_question two_decimals draws1 letters_table [] [''letter''] = Inr (Some q) \<and>
        correct_answer q = Str ''a'' \<and>
        options q = [Str ''d'', Str ''c'', Str ''a'', Str ''e''] \<and>
        correct_answer q \<in> set (options q) \<and>
        mset (options q) = mset [Str ''e'', Str ''d'', Str ''c''] + {#Str ''a''#}"
    using b d1 p na out e1 by (auto simp add: c1 letters_column letters_counts)
  show ?thesis using d0 w0 d1 p na out w1 by blast
qed


end
